theory Spec2Isabelle
  imports Complex_Main "HOL-Library.Extended_Nat" "HOL-Library.Sublist"
begin

section \<open>Data model\<close>

text \<open>
  The alert-to-notification pipeline of the flights tracker, embedded from
  \<^verbatim>\<open>src/core/alert-flight-fetcher.ts\<close>, \<^verbatim>\<open>scripts/generate-email-to-user.ts\<close>
  and the notification modules.

  A JavaScript \<^verbatim>\<open>number\<close> that holds a price is a \<open>real\<close> (the finite doubles,
  compared as the numbers they denote; NaN is not a value of the model), a count is a
  \<open>nat\<close>, a string is a \<open>string\<close>, an optional field is an \<open>option\<close>.
  Record fields are global names in HOL, so where two source types use the same field
  name one of them carries a suffix: \<open>stops\<close> is the field of a slice and
  \<open>stopsTier\<close> the \<^verbatim>\<open>stops\<close> field of the criteria bundle; \<open>alertFilters\<close> is
  \<^verbatim>\<open>alert.filters\<close> and \<open>filters\<close> is \<^verbatim>\<open>alertFilters.filters\<close>; \<open>route_from\<close> and
  \<open>route_to\<close> are \<^verbatim>\<open>route.from\<close> and \<^verbatim>\<open>route.to\<close>.
\<close>

record Leg =
  airlineCode :: string
  departureAirportCode :: string
  departureDateTime :: string
  arrivalAirportCode :: string
  arrivalDateTime :: string

record Slice =
  stops :: nat
  durationMinutes :: nat
  legs :: "Leg list"

record FlightOption =
  totalPrice :: real
  currency :: string
  slices :: "Slice list"

record Route =
  route_from :: string
  route_to :: string

record Criteria =
  dateFrom :: "string option"
  dateTo :: "string option"
  departureTimeRange :: "(nat \<times> nat) option"
  arrivalTimeRange :: "(nat \<times> nat) option"
  cabinClass :: "string option"
  stopsTier :: "string option"
  airlines :: "string list option"
  price :: "real option"

record AlertFilters =
  route :: Route
  filters :: "Criteria option"

subsection \<open>JavaScript truthiness and upper-casing\<close>

text \<open>
  \<^verbatim>\<open>if (x)\<close> on an optional string holds when the string is there and not empty, on an
  optional number when the number is there and not zero.
\<close>

definition truthy_str :: "string option \<Rightarrow> bool" where
  "truthy_str x = (case x of None \<Rightarrow> False | Some s \<Rightarrow> s \<noteq> [])"

definition truthy_num :: "real option \<Rightarrow> bool" where
  "truthy_num x = (case x of None \<Rightarrow> False | Some n \<Rightarrow> n \<noteq> 0)"

text \<open>
  \<^verbatim>\<open>code.toUpperCase()\<close> on the ASCII letters; every other character is left as it is
  (airline codes are ASCII letters and digits).
\<close>

definition toUpperChar :: "char \<Rightarrow> char" where
  "toUpperChar c =
     (case map_of (zip ''abcdefghijklmnopqrstuvwxyz'' ''ABCDEFGHIJKLMNOPQRSTUVWXYZ'') c of
        None \<Rightarrow> c
      | Some u \<Rightarrow> u)"

definition toUpperCase :: "string \<Rightarrow> string" where
  "toUpperCase s = map toUpperChar s"

section \<open>Result Filter\<close>

text \<open>
  \<^verbatim>\<open>filterFlightsByAlertCriteria\<close>. The ceiling of a stops tier is a number or
  \<^verbatim>\<open>Number.POSITIVE_INFINITY\<close>, an \<open>enat\<close>.
\<close>

definition maxStopsOf :: "string \<Rightarrow> enat" where
  "maxStopsOf tier =
     (if tier = ''NONSTOP'' then 0
      else if tier = ''ONE_STOP'' then 1
      else if tier = ''TWO_STOPS'' then 2
      else \<infinity>)"

definition hasMatchingAirline :: "string list \<Rightarrow> FlightOption \<Rightarrow> bool" where
  "hasMatchingAirline codes flight =
     list_ex (\<lambda>slice. list_ex (\<lambda>leg. airlineCode leg \<in> set (map toUpperCase codes)) (legs slice))
       (slices flight)"

definition hasValidStops :: "string \<Rightarrow> FlightOption \<Rightarrow> bool" where
  "hasValidStops tier flight =
     list_all (\<lambda>slice. enat (stops slice) \<le> maxStopsOf tier) (slices flight)"

text \<open>The callback of \<^verbatim>\<open>flights.filter\<close>: three guards, each an early \<^verbatim>\<open>return false\<close>.\<close>

definition keepFlight :: "Criteria \<Rightarrow> FlightOption \<Rightarrow> bool" where
  "keepFlight c flight =
     (if truthy_num (price c) \<and> (case price c of None \<Rightarrow> False | Some p \<Rightarrow> totalPrice flight > p)
      then False
      else if (case airlines c of
                 None \<Rightarrow> False
               | Some codes \<Rightarrow> length codes > 0 \<and> \<not> hasMatchingAirline codes flight)
      then False
      else if truthy_str (stopsTier c)
              \<and> (case stopsTier c of None \<Rightarrow> False | Some tier \<Rightarrow> \<not> hasValidStops tier flight)
      then False
      else True)"

definition filterFlightsByAlertCriteria :: "FlightOption list \<Rightarrow> AlertFilters \<Rightarrow> FlightOption list" where
  "filterFlightsByAlertCriteria flights af =
     (case filters af of
        None \<Rightarrow> flights
      | Some c \<Rightarrow> filter (keepFlight c) flights)"

subsection \<open>The three predicates of the specification\<close>

text \<open>
  The predicates in the words of the specification, stated apart from the source: the
  total price is not above the ceiling; some leg of some slice has an airline code in the
  allow-set; every slice has at most as many stops as the ceiling of the tier, which is 0
  for NONSTOP, 1 for ONE_STOP, 2 for TWO_STOPS and unbounded for ANY. A tier that is none
  of the four counts as ANY, as the specification has it for the translator. A criterion
  that is not given is satisfied.
\<close>

definition claimed_pricePredicate :: "Criteria \<Rightarrow> FlightOption \<Rightarrow> bool" where
  "claimed_pricePredicate c flight =
     (case price c of None \<Rightarrow> True | Some limit \<Rightarrow> totalPrice flight \<le> limit)"

definition claimed_airlinePredicate :: "Criteria \<Rightarrow> FlightOption \<Rightarrow> bool" where
  "claimed_airlinePredicate c flight =
     (case airlines c of
        None \<Rightarrow> True
      | Some allowed \<Rightarrow>
          (\<exists>slice \<in> set (slices flight). \<exists>leg \<in> set (legs slice). airlineCode leg \<in> set allowed))"

definition claimed_stopsCeiling :: "string \<Rightarrow> enat" where
  "claimed_stopsCeiling tier =
     (case map_of [(''NONSTOP'', 0), (''ONE_STOP'', 1), (''TWO_STOPS'', 2), (''ANY'', \<infinity>)] tier of
        None \<Rightarrow> \<infinity>
      | Some limit \<Rightarrow> limit)"

definition claimed_stopsPredicate :: "Criteria \<Rightarrow> FlightOption \<Rightarrow> bool" where
  "claimed_stopsPredicate c flight =
     (case stopsTier c of
        None \<Rightarrow> True
      | Some tier \<Rightarrow>
          (\<forall>slice \<in> set (slices flight). enat (stops slice) \<le> claimed_stopsCeiling tier))"

text \<open>A criteria bundle with its allow-set upper-cased.\<close>

definition upperCased :: "Criteria \<Rightarrow> Criteria" where
  "upperCased c = c\<lparr>airlines := map_option (map toUpperCase) (airlines c)\<rparr>"

section \<open>Filter Translator\<close>

subsection \<open>The JavaScript clock and dates\<close>

text \<open>
  A \<^verbatim>\<open>Date\<close> is its time value: milliseconds since the epoch in UTC, or NaN for an
  invalid date, so \<open>int option\<close> with \<open>None\<close> for NaN. The methods the source calls are
  those of ECMAScript. What is left to the runtime is a record: the clock
  (\<^verbatim>\<open>new Date()\<close>), the offset of the local time zone (\<open>localTZA t True\<close> for a UTC
  time value \<open>t\<close>, \<open>localTZA t False\<close> for a local one, so that a zone with daylight
  saving has the offset of each day), and the parser of the strings that are not a plain
  ISO date.
\<close>

record Runtime =
  now :: int
  localTZA :: "int \<Rightarrow> bool \<Rightarrow> int"
  parseOther :: "string \<Rightarrow> int option"

definition msPerDay :: int where
  "msPerDay = 86400000"

definition LocalTime :: "Runtime \<Rightarrow> int \<Rightarrow> int" where
  "LocalTime rt t = t + localTZA rt t True"

definition UTC :: "Runtime \<Rightarrow> int \<Rightarrow> int" where
  "UTC rt t = t - localTZA rt t False"

text \<open>Days of the calendar: the day number of a date, and the date of a day number.\<close>

definition isLeapYear :: "int \<Rightarrow> bool" where
  "isLeapYear y = (y mod 4 = 0 \<and> (y mod 100 \<noteq> 0 \<or> y mod 400 = 0))"

definition DayFromYear :: "int \<Rightarrow> int" where
  "DayFromYear y = 365 * (y - 1970) + (y - 1969) div 4 - (y - 1901) div 100 + (y - 1601) div 400"

definition daysInMonth :: "int \<Rightarrow> nat \<Rightarrow> int" where
  "daysInMonth y m =
     (if m = 2 then (if isLeapYear y then 29 else 28)
      else if m = 4 \<or> m = 6 \<or> m = 9 \<or> m = 11 then 30 else 31)"

definition MakeDay :: "int \<Rightarrow> nat \<Rightarrow> int \<Rightarrow> int" where
  "MakeDay y m d = DayFromYear y + sum_list (map (daysInMonth y) [1..<m]) + d - 1"

definition civilFromDays :: "int \<Rightarrow> int \<times> nat \<times> nat" where
  "civilFromDays z =
     (let z' = z + 719468;
          era = z' div 146097;
          doe = z' mod 146097;
          yoe = (doe - doe div 1460 + doe div 36524 - doe div 146096) div 365;
          doy = doe - (365 * yoe + yoe div 4 - yoe div 100);
          mp = (5 * doy + 2) div 153;
          d = doy - (153 * mp + 2) div 5 + 1;
          m = (if mp < 10 then mp + 3 else mp - 9);
          y = yoe + era * 400 + (if m \<le> 2 then 1 else 0)
      in (y, nat m, nat d))"

text \<open>Numbers in strings: a count in decimal, padded with zeros on the left.\<close>

fun showNat :: "nat \<Rightarrow> string" where
  "showNat n =
     (if n < 10 then [char_of (48 + n)]
      else showNat (n div 10) @ [char_of (48 + n mod 10)])"

definition padZero :: "nat \<Rightarrow> string \<Rightarrow> string" where
  "padZero w s = replicate (w - length s) (CHR ''0'') @ s"

text \<open>\<^verbatim>\<open>d.toISOString().split("T")[0]\<close>: the date of the time value in UTC.\<close>

definition toISODate :: "int \<Rightarrow> string" where
  "toISODate t =
     (case civilFromDays (t div msPerDay) of
        (y, m, d) \<Rightarrow>
          (if 0 \<le> y \<and> y \<le> 9999 then padZero 4 (showNat (nat y))
           else (if y < 0 then ''-'' else ''+'') @ padZero 6 (showNat (nat \<bar>y\<bar>)))
          @ ''-'' @ padZero 2 (showNat m) @ ''-'' @ padZero 2 (showNat d))"

text \<open>
  \<^verbatim>\<open>new Date(s)\<close>. A plain ISO date \<^verbatim>\<open>YYYY-MM-DD\<close> is midnight of that date in UTC;
  the empty string is an invalid date; every other string is left to the runtime's parser.
\<close>

definition digitOf :: "char \<Rightarrow> nat option" where
  "digitOf = map_of (zip ''0123456789'' [0, 1, 2, 3, 4, 5, 6, 7, 8, 9])"

definition digitsOf :: "string \<Rightarrow> nat option" where
  "digitsOf s =
     (if s \<noteq> [] \<and> list_all (\<lambda>c. digitOf c \<noteq> None) s
      then Some (foldl (\<lambda>acc c. 10 * acc + (case digitOf c of None \<Rightarrow> 0 | Some k \<Rightarrow> k)) 0 s)
      else None)"

definition parseIsoDate :: "string \<Rightarrow> int option" where
  "parseIsoDate s =
     (if length s = 10 \<and> s ! 4 = CHR ''-'' \<and> s ! 7 = CHR ''-'' then
        (case digitsOf (take 4 s) of
           None \<Rightarrow> None
         | Some y \<Rightarrow>
             (case digitsOf (take 2 (drop 5 s)) of
                None \<Rightarrow> None
              | Some m \<Rightarrow>
                  (case digitsOf (drop 8 s) of
                     None \<Rightarrow> None
                   | Some d \<Rightarrow>
                       if 1 \<le> m \<and> m \<le> 12 \<and> 1 \<le> d \<and> int d \<le> daysInMonth (int y) m
                       then Some (MakeDay (int y) m (int d) * msPerDay)
                       else None)))
      else None)"

definition newDate :: "Runtime \<Rightarrow> string \<Rightarrow> int option" where
  "newDate rt s =
     (if s = [] then None
      else (case parseIsoDate s of Some t \<Rightarrow> Some t | None \<Rightarrow> parseOther rt s))"

text \<open>
  \<^verbatim>\<open>d.setHours(0, 0, 0, 0)\<close>: the time value of midnight of the local day of \<open>d\<close>,
  taken back to UTC with the offset of that local time; NaN stays NaN.
\<close>

definition setHours0 :: "Runtime \<Rightarrow> int option \<Rightarrow> int option" where
  "setHours0 rt d =
     map_option (\<lambda>t. UTC rt (LocalTime rt t - LocalTime rt t mod msPerDay)) d"

text \<open>\<^verbatim>\<open>a < b\<close> and \<^verbatim>\<open>a <= b\<close> on dates: false when either side is NaN.\<close>

definition date_lt :: "int option \<Rightarrow> int option \<Rightarrow> bool" where
  "date_lt a b = (case a of None \<Rightarrow> False | Some x \<Rightarrow> (case b of None \<Rightarrow> False | Some y \<Rightarrow> x < y))"

definition date_le :: "int option \<Rightarrow> int option \<Rightarrow> bool" where
  "date_le a b = (case a of None \<Rightarrow> False | Some x \<Rightarrow> (case b of None \<Rightarrow> False | Some y \<Rightarrow> x \<le> y))"

definition today :: "Runtime \<Rightarrow> int option" where
  "today rt = setHours0 rt (Some (now rt))"

text \<open>
  \<^verbatim>\<open>tomorrow.setDate(tomorrow.getDate() + 1)\<close>: the same local time of day one local
  day later, taken back to UTC with the offset of that local time.
\<close>

definition tomorrow :: "Runtime \<Rightarrow> int option" where
  "tomorrow rt = map_option (\<lambda>t. UTC rt (LocalTime rt t + msPerDay)) (today rt)"

definition tomorrowStr :: "Runtime \<Rightarrow> string" where
  "tomorrowStr rt = (case tomorrow rt of None \<Rightarrow> [] | Some t \<Rightarrow> toISODate t)"

subsection \<open>The search query\<close>

datatype TripType = ONE_WAY | ROUND_TRIP

datatype MaxStops = ANY | NON_STOP | ONE_STOP_OR_FEWER | TWO_OR_FEWER_STOPS

datatype SeatType = ECONOMY | PREMIUM_ECONOMY | BUSINESS | FIRST

datatype Currency = USD

record Segment =
  origin :: string
  destination :: string
  departureDate :: string
  segDepartureTimeRange :: "(nat \<times> nat) option"
  segArrivalTimeRange :: "(nat \<times> nat) option"

record DateRange =
  rangeFrom :: string
  rangeTo :: string

record PriceLimit =
  amount :: real
  limitCurrency :: Currency

record FlightFiltersInput =
  tripType :: TripType
  segments :: "Segment list"
  dateRange :: DateRange
  seatType :: SeatType
  maxStops :: MaxStops
  inputAirlines :: "string list option"
  priceLimit :: "PriceLimit option"

definition stopsMap :: "string \<Rightarrow> MaxStops option" where
  "stopsMap = map_of
     [(''ANY'', ANY), (''NONSTOP'', NON_STOP), (''ONE_STOP'', ONE_STOP_OR_FEWER),
      (''TWO_STOPS'', TWO_OR_FEWER_STOPS)]"

definition seatTypeMap :: "string \<Rightarrow> SeatType option" where
  "seatTypeMap = map_of
     [(''ECONOMY'', ECONOMY), (''PREMIUM_ECONOMY'', PREMIUM_ECONOMY), (''BUSINESS'', BUSINESS),
      (''FIRST'', FIRST)]"

text \<open>\<^verbatim>\<open>filters?.dateTo\<close> and its siblings: undefined when the bundle is.\<close>

definition optField :: "(Criteria \<Rightarrow> 'a option) \<Rightarrow> Criteria option \<Rightarrow> 'a option" where
  "optField f c = (case c of None \<Rightarrow> None | Some b \<Rightarrow> f b)"

text \<open>The check \<^verbatim>\<open>endDate < today\<close> of the source, on a date string.\<close>

definition beforeToday :: "Runtime \<Rightarrow> string \<Rightarrow> bool" where
  "beforeToday rt s = date_lt (setHours0 rt (newDate rt s)) (today rt)"

definition effectiveDateFrom :: "Runtime \<Rightarrow> Criteria option \<Rightarrow> string" where
  "effectiveDateFrom rt c =
     (case optField dateFrom c of
        None \<Rightarrow> tomorrowStr rt
      | Some d \<Rightarrow>
          if d \<noteq> [] then (if beforeToday rt d then tomorrowStr rt else d)
          else tomorrowStr rt)"

text \<open>
  \<^verbatim>\<open>convertAlertFiltersToFlightFilters\<close>, its local values each under its name in
  the source: the expiry check on \<^verbatim>\<open>dateTo\<close>, \<^verbatim>\<open>stops\<close>, \<^verbatim>\<open>seatType\<close>,
  \<^verbatim>\<open>segments\<close>, the object \<^verbatim>\<open>input\<close>, and the two conditional assignments to it.
\<close>

definition rangeExpired :: "Runtime \<Rightarrow> Criteria option \<Rightarrow> bool" where
  "rangeExpired rt c =
     (case optField dateTo c of
        None \<Rightarrow> False
      | Some d \<Rightarrow> d \<noteq> [] \<and> beforeToday rt d)"

definition stopsOf :: "Criteria option \<Rightarrow> MaxStops" where
  "stopsOf c =
     (case optField stopsTier c of
        None \<Rightarrow> ANY
      | Some t \<Rightarrow> if t \<noteq> [] then (case stopsMap t of None \<Rightarrow> ANY | Some m \<Rightarrow> m) else ANY)"

definition seatTypeOf :: "Criteria option \<Rightarrow> SeatType" where
  "seatTypeOf c =
     (case optField cabinClass c of
        None \<Rightarrow> ECONOMY
      | Some k \<Rightarrow> if k \<noteq> [] then (case seatTypeMap k of None \<Rightarrow> ECONOMY | Some m \<Rightarrow> m) else ECONOMY)"

definition segmentsOf :: "Runtime \<Rightarrow> AlertFilters \<Rightarrow> Segment list" where
  "segmentsOf rt af =
     [\<lparr>origin = route_from (route af), destination = route_to (route af),
       departureDate = effectiveDateFrom rt (filters af),
       segDepartureTimeRange = optField departureTimeRange (filters af),
       segArrivalTimeRange = optField arrivalTimeRange (filters af)\<rparr>]"

definition baseInput :: "Runtime \<Rightarrow> AlertFilters \<Rightarrow> FlightFiltersInput" where
  "baseInput rt af =
     \<lparr>tripType = ONE_WAY, segments = segmentsOf rt af,
      dateRange =
        \<lparr>rangeFrom = effectiveDateFrom rt (filters af),
         rangeTo = (case optField dateTo (filters af) of
                      None \<Rightarrow> effectiveDateFrom rt (filters af)
                    | Some d \<Rightarrow> if d \<noteq> [] then d else effectiveDateFrom rt (filters af))\<rparr>,
      seatType = seatTypeOf (filters af), maxStops = stopsOf (filters af),
      inputAirlines = None, priceLimit = None\<rparr>"

definition withAirlines :: "Criteria option \<Rightarrow> FlightFiltersInput \<Rightarrow> FlightFiltersInput" where
  "withAirlines c input =
     (case optField airlines c of
        None \<Rightarrow> input
      | Some codes \<Rightarrow> if length codes > 0 then input\<lparr>inputAirlines := Some codes\<rparr> else input)"

definition withPriceLimit :: "Criteria option \<Rightarrow> FlightFiltersInput \<Rightarrow> FlightFiltersInput" where
  "withPriceLimit c input =
     (case optField price c of
        None \<Rightarrow> input
      | Some p \<Rightarrow>
          if p \<noteq> 0 then input\<lparr>priceLimit := Some \<lparr>amount = p, limitCurrency = USD\<rparr>\<rparr> else input)"

definition convertAlertFiltersToFlightFilters :: "Runtime \<Rightarrow> AlertFilters \<Rightarrow> FlightFiltersInput option" where
  "convertAlertFiltersToFlightFilters rt af =
     (if rangeExpired rt (filters af) then None
      else Some (withPriceLimit (filters af) (withAirlines (filters af) (baseInput rt af))))"

section \<open>Alerts and the Batch Processor\<close>

datatype AlertStatus = active | completed | deleted

record Alert =
  alert_id :: string
  userId :: string
  alertType :: string
  status :: AlertStatus
  alertFilters :: AlertFilters
  alertEnd :: "string option"

record AlertWithFlights =
  alert :: Alert
  flights :: "FlightOption list"

text \<open>
  The search collaborator and the validation of a query are not code of this subsystem:
  they are parameters, and either of them can throw. \<open>'v\<close> is the validated query.
\<close>

datatype error =
  FlightFiltersValidationError "string list" | SearchFailure string | GenerationFailure string
| RenderFailure string

record 'v Collaborators =
  parseFlightFiltersInput :: "FlightFiltersInput \<Rightarrow> error + 'v"
  searchFlights :: "'v \<Rightarrow> error + FlightOption list"

text \<open>
  \<^verbatim>\<open>flights.slice(0, maxFlights)\<close>; a negative end counts from the end of the array.
  The parameter \<^verbatim>\<open>maxFlights = 5\<close> has a default: an absent argument is \<open>None\<close>.
\<close>

definition slice0 :: "'a list \<Rightarrow> int \<Rightarrow> 'a list" where
  "slice0 xs n = (if 0 \<le> n then take (nat n) xs else take (nat (int (length xs) + n)) xs)"

definition maxFlightsOrDefault :: "int option \<Rightarrow> int" where
  "maxFlightsOrDefault m = (case m of None \<Rightarrow> 5 | Some n \<Rightarrow> n)"

text \<open>The body of the \<^verbatim>\<open>try\<close> block of \<^verbatim>\<open>fetchFlightsForAlert\<close>: \<open>Inl\<close> is a throw.\<close>

definition fetchFlightsForAlert_try ::
  "Runtime \<Rightarrow> 'v Collaborators \<Rightarrow> Alert \<Rightarrow> int option \<Rightarrow> error + AlertWithFlights option" where
  "fetchFlightsForAlert_try rt co a m =
     (case convertAlertFiltersToFlightFilters rt (alertFilters a) of
        None \<Rightarrow> Inr None
      | Some flightFilters \<Rightarrow>
          (case parseFlightFiltersInput co flightFilters of
             Inl e \<Rightarrow> Inl e
           | Inr validatedFilters \<Rightarrow>
               (case searchFlights co validatedFilters of
                  Inl e \<Rightarrow> Inl e
                | Inr found \<Rightarrow>
                    (let limitedFlights = slice0 found (maxFlightsOrDefault m);
                         matchingFlights = filterFlightsByAlertCriteria limitedFlights (alertFilters a)
                     in Inr (Some \<lparr>alert = a, flights = matchingFlights\<rparr>)))))"

text \<open>With its \<^verbatim>\<open>catch\<close>: the promise it returns resolves, to null after a throw.\<close>

definition fetchFlightsForAlert ::
  "Runtime \<Rightarrow> 'v Collaborators \<Rightarrow> Alert \<Rightarrow> int option \<Rightarrow> error + AlertWithFlights option" where
  "fetchFlightsForAlert rt co a m =
     (case fetchFlightsForAlert_try rt co a m of
        Inl e \<Rightarrow> Inr None
      | Inr r \<Rightarrow> Inr r)"

text \<open>\<^verbatim>\<open>Promise.all\<close>: the results in order, or the first rejection.\<close>

fun promiseAll :: "(error + 'a) list \<Rightarrow> error + 'a list" where
  "promiseAll [] = Inr []"
| "promiseAll (Inl e # ps) = Inl e"
| "promiseAll (Inr x # ps) = (case promiseAll ps of Inl e \<Rightarrow> Inl e | Inr xs \<Rightarrow> Inr (x # xs))"

text \<open>The type guard of \<^verbatim>\<open>results.filter\<close>: not null and with a flight.\<close>

definition successful :: "AlertWithFlights option \<Rightarrow> bool" where
  "successful r = (case r of None \<Rightarrow> False | Some x \<Rightarrow> length (flights x) > 0)"

text \<open>
  \<^verbatim>\<open>fetchFlightDataForAlerts\<close>. The grouping by route only feeds a log line and is left
  out, as are the log lines.
\<close>

definition fetchFlightDataForAlerts ::
  "Runtime \<Rightarrow> 'v Collaborators \<Rightarrow> Alert list \<Rightarrow> int option \<Rightarrow> error + AlertWithFlights list" where
  "fetchFlightDataForAlerts rt co alerts m =
     (if length alerts = 0 then Inr []
      else
        (case promiseAll (map (\<lambda>a. fetchFlightsForAlert rt co a m) alerts) of
           Inl e \<Rightarrow> Inl e
         | Inr results \<Rightarrow> Inr (List.map_filter (\<lambda>r. if successful r then r else None) results)))"

section \<open>Alert Lifecycle Manager\<close>

text \<open>
  The loop of \<^verbatim>\<open>filterAndUpdateExpiredAlerts\<close> with its two arrays; \<^verbatim>\<open>push\<close>
  appends.
\<close>

fun partitionLoop :: "Runtime \<Rightarrow> Alert list \<Rightarrow> Alert list \<Rightarrow> Alert list \<Rightarrow> Alert list \<times> Alert list" where
  "partitionLoop rt [] activeAlerts expiredAlerts = (activeAlerts, expiredAlerts)"
| "partitionLoop rt (a # rest) activeAlerts expiredAlerts =
     (if truthy_str (alertEnd a) then
        (if date_le (case alertEnd a of None \<Rightarrow> None | Some s \<Rightarrow> newDate rt s) (Some (now rt))
         then partitionLoop rt rest activeAlerts (expiredAlerts @ [a])
         else partitionLoop rt rest (activeAlerts @ [a]) expiredAlerts)
      else partitionLoop rt rest (activeAlerts @ [a]) expiredAlerts)"

definition partitionByExpiry :: "Runtime \<Rightarrow> Alert list \<Rightarrow> Alert list \<times> Alert list" where
  "partitionByExpiry rt alerts = partitionLoop rt alerts [] []"

text \<open>
  The alert store is the table of alert rows keyed by id. \<^verbatim>\<open>updateAlert\<close> sets the
  fields its patch gives on the row with that id and returns the row, or null when there
  is none.
\<close>

record UpdateAlertInput =
  updStatus :: "AlertStatus option"
  updFilters :: "AlertFilters option"
  updAlertEnd :: "string option"

type_synonym AlertStore = "string \<Rightarrow> Alert option"

definition applyUpdates :: "Alert \<Rightarrow> UpdateAlertInput \<Rightarrow> Alert" where
  "applyUpdates row u =
     row\<lparr>status := (case updStatus u of None \<Rightarrow> status row | Some s \<Rightarrow> s),
         alertFilters := (case updFilters u of None \<Rightarrow> alertFilters row | Some f \<Rightarrow> f),
         alertEnd := (case updAlertEnd u of None \<Rightarrow> alertEnd row | Some e \<Rightarrow> Some e)\<rparr>"

definition updateAlert :: "AlertStore \<Rightarrow> string \<Rightarrow> UpdateAlertInput \<Rightarrow> Alert option \<times> AlertStore" where
  "updateAlert store alertId updates =
     (case store alertId of
        None \<Rightarrow> (None, store)
      | Some row \<Rightarrow> (Some (applyUpdates row updates), store(alertId \<mapsto> applyUpdates row updates)))"

text \<open>The updates the manager issues: one per expired alert, each \<^verbatim>\<open>{ status: "completed" }\<close>.\<close>

definition expiryUpdates :: "Alert list \<Rightarrow> (string \<times> UpdateAlertInput) list" where
  "expiryUpdates expiredAlerts =
     map (\<lambda>a. (alert_id a, \<lparr>updStatus = Some completed, updFilters = None, updAlertEnd = None\<rparr>))
       expiredAlerts"

definition issueUpdates :: "(string \<times> UpdateAlertInput) list \<Rightarrow> AlertStore \<Rightarrow> AlertStore" where
  "issueUpdates ups store = fold (\<lambda>(alertId, u) s. snd (updateAlert s alertId u)) ups store"

definition filterAndUpdateExpiredAlerts :: "Runtime \<Rightarrow> AlertStore \<Rightarrow> Alert list \<Rightarrow> Alert list \<times> AlertStore" where
  "filterAndUpdateExpiredAlerts rt store alerts =
     (case partitionByExpiry rt alerts of
        (activeAlerts, expiredAlerts) \<Rightarrow>
          (activeAlerts,
           if length expiredAlerts > 0 then issueUpdates (expiryUpdates expiredAlerts) store
           else store))"

text \<open>
  \<^verbatim>\<open>filterUnprocessedAlerts\<close> asks the notification log, a parameter, and writes
  nothing.
\<close>

definition DEDUPLICATION_HOURS :: nat where
  "DEDUPLICATION_HOURS = 23"

definition filterUnprocessedAlerts :: "(string \<Rightarrow> nat \<Rightarrow> bool) \<Rightarrow> Alert list \<Rightarrow> Alert list" where
  "filterUnprocessedAlerts hasAlertBeenProcessedRecently alerts =
     map snd (filter (\<lambda>r. \<not> fst r)
       (map (\<lambda>a. (hasAlertBeenProcessedRecently (alert_id a) DEDUPLICATION_HOURS, a)) alerts))"

text \<open>The operations of the manager, and a run of them on the alert store.\<close>

datatype LifecycleOp =
  FilterAndUpdateExpired Runtime "Alert list"
| FilterUnprocessed "string \<Rightarrow> nat \<Rightarrow> bool" "Alert list"

fun lifecycleStep :: "LifecycleOp \<Rightarrow> AlertStore \<Rightarrow> AlertStore" where
  "lifecycleStep (FilterAndUpdateExpired rt alerts) store = snd (filterAndUpdateExpiredAlerts rt store alerts)"
| "lifecycleStep (FilterUnprocessed processed alerts) store = store"

definition runLifecycle :: "LifecycleOp list \<Rightarrow> AlertStore \<Rightarrow> AlertStore" where
  "runLifecycle ops store = fold lifecycleStep ops store"

section \<open>Notification Content Pipeline: rendering\<close>

subsection \<open>Static markup\<close>

text \<open>
  The templates build React elements and hand them to \<^verbatim>\<open>renderToStaticMarkup\<close>. An
  element is a tag with its attributes (a style object is the attribute \<open>style\<close>, its
  declarations joined by semicolons) and its children; a string child is text. Static
  markup is the tags around the children, with text and attribute values escaped; a void
  element such as \<open>meta\<close> closes itself.
\<close>

datatype node = Txt string | El string "(string \<times> string) list" "node list"

definition escapeChar :: "char \<Rightarrow> string" where
  "escapeChar c =
     (if c = CHR ''&'' then ''&amp;''
      else if c = CHR ''<'' then ''&lt;''
      else if c = CHR ''>'' then ''&gt;''
      else if c = CHR 0x22 then ''&quot;''
      else if c = CHR 0x27 then ''&#x27;''
      else [c])"

definition escapeText :: "string \<Rightarrow> string" where
  "escapeText s = concat (map escapeChar s)"

fun joinWith :: "string \<Rightarrow> string list \<Rightarrow> string" where
  "joinWith sep [] = []"
| "joinWith sep [x] = x"
| "joinWith sep (x # y # ys) = x @ sep @ joinWith sep (y # ys)"

definition css :: "(string \<times> string) list \<Rightarrow> string \<times> string" where
  "css decls = (''style'', joinWith '';'' (map (\<lambda>(p, v). p @ '':'' @ v) decls))"

definition renderAttr :: "string \<times> string \<Rightarrow> string" where
  "renderAttr a = '' '' @ fst a @ ''='' @ [CHR 0x22] @ escapeText (snd a) @ [CHR 0x22]"

definition voidElements :: "string list" where
  "voidElements = [''meta'', ''br'', ''hr'', ''img'', ''input'', ''link'']"

fun renderToStaticMarkup :: "node \<Rightarrow> string" where
  "renderToStaticMarkup (Txt s) = escapeText s"
| "renderToStaticMarkup (El tag attrs children) =
     (if tag \<in> set voidElements then ''<'' @ tag @ concat (map renderAttr attrs) @ ''/>''
      else ''<'' @ tag @ concat (map renderAttr attrs) @ ''>''
           @ concat (map renderToStaticMarkup children) @ ''</'' @ tag @ ''>'')"

definition arrow :: string where
  "arrow = [CHR 0xE2, CHR 0x86, CHR 0x92]"

definition bullet :: string where
  "bullet = [CHR 0xE2, CHR 0x80, CHR 0xA2]"

subsection \<open>Formatters\<close>

text \<open>
  Modelled from the spec: the module \<^verbatim>\<open>formatters\<close> (\<^verbatim>\<open>formatDate\<close>,
  \<^verbatim>\<open>formatDateTime\<close>, \<^verbatim>\<open>formatCurrency\<close>, \<^verbatim>\<open>joinWithAnd\<close>, \<^verbatim>\<open>escapeHtml\<close>,
  \<^verbatim>\<open>stripHtml\<close>) is not among the sources. The fallback path has no external
  dependency and must always succeed, so the formatters are functions from their
  arguments to a string: parameters, each returning for every argument. The options
  objects of the calls are lists of pairs. The number and date formatting of the runtime
  that \<^verbatim>\<open>buildFlightHighlights\<close> calls stands beside them.
\<close>

record Formatters =
  formatDate :: "string \<Rightarrow> string"
  formatDateTime :: "string \<Rightarrow> (string \<times> string) list \<Rightarrow> string"
  formatCurrency :: "real \<Rightarrow> string \<Rightarrow> (string \<times> string) list \<Rightarrow> string"
  joinWithAnd :: "string list \<Rightarrow> string"
  escapeHtml :: "string \<Rightarrow> string"
  toFixed0 :: "real \<Rightarrow> string"
  toLocaleString :: "string \<Rightarrow> (string \<times> string) list \<Rightarrow> string"

text \<open>
  Modelled from the spec: \<^verbatim>\<open>stripHtml\<close>. The text of an email is derived from its
  html by stripping the markup: every tag, from \<open><\<close> to the next \<open>>\<close>, is removed
  and the characters between tags are kept. The flag says whether the scan is inside a tag.
\<close>

fun stripFrom :: "bool \<Rightarrow> string \<Rightarrow> string" where
  "stripFrom inTag [] = []"
| "stripFrom inTag (c # cs) =
     (if inTag then (if c = CHR ''>'' then stripFrom False cs else stripFrom True cs)
      else (if c = CHR ''<'' then stripFrom True cs else c # stripFrom False cs))"

definition stripHtml :: "string \<Rightarrow> string" where
  "stripHtml markup = stripFrom False markup"

subsection \<open>Components\<close>

definition TextBlock :: "string option \<Rightarrow> string \<Rightarrow> node" where
  "TextBlock headline body =
     El ''div'' []
       ((if truthy_str headline
         then [El ''h3'' [css [(''margin'', ''0 0 6px''), (''font-size'', ''16px''), (''font-weight'', ''600''),
                               (''color'', ''#0f172a'')]]
                 [Txt (case headline of None \<Rightarrow> [] | Some h \<Rightarrow> h)]]
         else [])
        @ [El ''p'' [css [(''margin'', ''0''), (''font-size'', ''14px''), (''line-height'', ''1.6''),
                          (''color'', ''#475569'')]]
             [Txt body]])"

definition EmailSection :: "string option \<Rightarrow> string option \<Rightarrow> node list \<Rightarrow> node" where
  "EmailSection title description children =
     El ''section'' [css [(''padding'', ''28px''), (''border-bottom'', ''1px solid #e2e8f0'')]]
       ((if truthy_str title
         then [El ''h2'' [css [(''margin'', ''0 0 8px''), (''font-size'', ''18px''), (''font-weight'', ''600''),
                               (''color'', ''#0f172a'')]]
                 [Txt (case title of None \<Rightarrow> [] | Some t \<Rightarrow> t)]]
         else [])
        @ (if truthy_str description
           then [El ''p'' [css [(''margin'', ''0 0 16px''), (''font-size'', ''14px''), (''color'', ''#64748b'')]]
                   [Txt (case description of None \<Rightarrow> [] | Some d \<Rightarrow> d)]]
           else [])
        @ [El ''div'' [css [(''display'', ''grid''), (''gap'', ''16px'')]] children])"

definition BadgeRow :: "string list \<Rightarrow> node" where
  "BadgeRow items =
     El ''div'' [css [(''display'', ''flex''), (''flex-wrap'', ''wrap''), (''gap'', ''8px'')]]
       (map (\<lambda>label.
               El ''span'' [css [(''display'', ''inline-block''), (''padding'', ''4px 10px''),
                                 (''font-size'', ''12px''), (''border-radius'', ''9999px''),
                                 (''background'', ''#eef2ff''), (''color'', ''#4338ca''),
                                 (''letter-spacing'', ''0.02em'')]]
                 [Txt label])
          items)"

record FlightHighlight =
  hlLabel :: string
  hlValue :: string

record FlightCardProps =
  cardTitle :: string
  cardDescription :: string
  highlights :: "FlightHighlight list"
  cardAction :: "(string \<times> string) option"

definition FlightCard :: "FlightCardProps \<Rightarrow> node" where
  "FlightCard props =
     El ''div'' [css [(''border'', ''1px solid #e2e8f0''), (''border-radius'', ''12px''),
                      (''padding'', ''20px''), (''background'', ''#ffffff'')]]
       ([El ''div'' [css [(''display'', ''flex''), (''justify-content'', ''space-between''), (''gap'', ''12px'')]]
           [El ''div'' []
              [El ''h3'' [css [(''margin'', ''0 0 6px''), (''font-size'', ''16px''), (''color'', ''#0f172a'')]]
                 [Txt (cardTitle props)],
               El ''p'' [css [(''margin'', ''0''), (''font-size'', ''13px''), (''color'', ''#64748b'')]]
                 [Txt (cardDescription props)]]],
         El ''ul'' [css [(''list-style'', ''none''), (''padding'', ''0''), (''margin'', ''16px 0 0''),
                         (''display'', ''grid''), (''gap'', ''8px'')]]
           (map (\<lambda>item.
                   El ''li'' [css [(''font-size'', ''13px''), (''color'', ''#475569'')]]
                     [El ''strong'' [css [(''color'', ''#0f172a'')]] [Txt (hlLabel item), Txt '':''],
                      Txt '' '', Txt (hlValue item)])
              (highlights props))]
        @ (case cardAction props of
             None \<Rightarrow> []
           | Some (label, url) \<Rightarrow>
               [El ''div'' [css [(''margin-top'', ''16px'')]]
                  [El ''a'' [(''href'', url),
                             css [(''display'', ''inline-block''), (''padding'', ''10px 16px''),
                                  (''border-radius'', ''8px''), (''background'', ''#4338ca''),
                                  (''color'', ''#ffffff''), (''text-decoration'', ''none''),
                                  (''font-size'', ''13px''), (''font-weight'', ''600'')]]
                     [Txt label]]]))"

definition FlightCardGrid :: "FlightCardProps list \<Rightarrow> node" where
  "FlightCardGrid cards =
     El ''div'' [css [(''display'', ''grid''), (''gap'', ''16px'')]] (map FlightCard cards)"

text \<open>\<^verbatim>\<open>buildFlightHighlights\<close>; the entries for a missing first or last leg are filtered out.\<close>

definition highlightOptions :: "(string \<times> string) list" where
  "highlightOptions =
     [(''month'', ''short''), (''day'', ''numeric''), (''hour'', ''numeric''), (''minute'', ''numeric'')]"

definition buildFlightHighlights :: "Formatters \<Rightarrow> FlightOption \<Rightarrow> FlightHighlight list" where
  "buildFlightHighlights fm flight =
     (let firstLeg = (case slices flight of
                        [] \<Rightarrow> None
                      | s # _ \<Rightarrow> (case legs s of [] \<Rightarrow> None | l # _ \<Rightarrow> Some l));
          lastLeg = (if slices flight = [] then None
                     else if legs (last (slices flight)) = [] then None
                     else Some (last (legs (last (slices flight)))));
          minutes = fold (\<lambda>slice acc. acc + durationMinutes slice) (slices flight) 0;
          totalStops = fold (\<lambda>slice acc. acc + stops slice) (slices flight) 0
      in [\<lparr>hlLabel = ''Price'', hlValue = toFixed0 fm (totalPrice flight) @ '' '' @ currency flight\<rparr>,
          \<lparr>hlLabel = ''Duration'',
           hlValue = showNat (minutes div 60) @ ''h '' @ showNat (minutes mod 60) @ ''m''\<rparr>,
          \<lparr>hlLabel = ''Stops'',
           hlValue = (if totalStops = 0 then ''Nonstop''
                      else showNat totalStops @ '' stop'' @ (if totalStops > 1 then ''s'' else []))\<rparr>]
         @ (case firstLeg of
              None \<Rightarrow> []
            | Some l \<Rightarrow>
                [\<lparr>hlLabel = ''Departure'',
                  hlValue = departureAirportCode l @ '' '' @ bullet @ '' ''
                            @ toLocaleString fm (departureDateTime l) highlightOptions\<rparr>])
         @ (case lastLeg of
              None \<Rightarrow> []
            | Some l \<Rightarrow>
                [\<lparr>hlLabel = ''Arrival'',
                  hlValue = arrivalAirportCode l @ '' '' @ bullet @ '' ''
                            @ toLocaleString fm (arrivalDateTime l) highlightOptions\<rparr>]))"

definition EmailLayout :: "string \<Rightarrow> node list \<Rightarrow> node" where
  "EmailLayout previewText children =
     El ''html'' [(''lang'', ''en''), css [(''width'', ''100%'')]]
       [El ''head'' []
          [El ''meta'' [(''charset'', ''UTF-8'')] [],
           El ''meta'' [(''name'', ''viewport''), (''content'', ''width=device-width, initial-scale=1'')] [],
           El ''title'' [] [Txt ''Flight Alerts'']],
        El ''body'' [css [(''font-family'', ''-apple-system, BlinkMacSystemFont, '' @ [CHR 0x27] @ ''Segoe UI''
                                             @ [CHR 0x27] @ '', sans-serif''),
                          (''margin'', ''0''), (''padding'', ''0''), (''background-color'', ''#f4f6fb''),
                          (''color'', ''#0f172a'')]]
          [El ''div'' [css [(''display'', ''none''), (''max-height'', ''0''), (''overflow'', ''hidden'')]]
             [Txt previewText],
           El ''div'' [css [(''width'', ''100%''), (''padding'', ''24px 0'')]]
             [El ''div'' [css [(''max-width'', ''640px''), (''margin'', ''0 auto''), (''background'', ''#ffffff''),
                               (''border-radius'', ''12px''),
                               (''box-shadow'', ''0 12px 36px rgba(15, 23, 42, 0.08)''),
                               (''overflow'', ''hidden'')]]
                (children
                 @ [El ''div'' [css [(''padding'', ''24px 28px''), (''font-size'', ''13px''),
                                     (''color'', ''#64748b''), (''border-top'', ''1px solid #e2e8f0'')]]
                      [Txt ''You are receiving this update because you subscribed to flight alerts.'']])]]]"

definition DOCTYPE :: string where
  "DOCTYPE = ''<!DOCTYPE html>''"

definition wrapWithLayout :: "string \<Rightarrow> node list \<Rightarrow> string" where
  "wrapWithLayout previewText children = DOCTYPE @ renderToStaticMarkup (EmailLayout previewText children)"

record RenderedEmail =
  subject :: string
  html :: string
  plainText :: string

definition renderEmail :: "string \<Rightarrow> string \<Rightarrow> RenderedEmail" where
  "renderEmail subj markup = \<lparr>subject = subj, html = markup, plainText = stripHtml markup\<rparr>"

subsection \<open>Payloads and blueprints\<close>

text \<open>
  The payload types are read off their uses in the templates. \<open>summaries\<close> is the
  field \<^verbatim>\<open>alerts\<close> of a daily payload; the fields of an alert descriptor carry the
  prefix \<open>ad\<close>. A price is an amount with its currency code.
\<close>

record AlertDescriptor =
  adId :: string
  adLabel :: string
  adOrigin :: string
  adDestination :: string
  adSeatType :: "string option"
  adStops :: "string option"
  adAirlines :: "string list option"
  adPriceLimit :: "(real \<times> string) option"

record DailyAlertSummary =
  dsAlert :: AlertDescriptor
  dsFlights :: "FlightOption list"
  generatedAt :: string

record DailyPriceUpdateEmail =
  summaryDate :: string
  summaries :: "DailyAlertSummary list"

record PriceDropAlertEmail =
  pdAlert :: AlertDescriptor
  pdFlights :: "FlightOption list"
  detectedAt :: string
  previousLowestPrice :: "(real \<times> string) option"
  newLowestPrice :: "(real \<times> string) option"

datatype NotificationEmailPayload =
  DailyPriceUpdate DailyPriceUpdateEmail
| PriceDropAlert PriceDropAlertEmail

text \<open>The blueprint, as \<^verbatim>\<open>EmailBlueprintSchema\<close> types it.\<close>

datatype Tone = concise | detailed | urgent | celebratory

datatype ChartType = sparkline | bar

datatype ChartUnit = usd | minutes | percent | count

datatype EmailComponent =
  TextComponent string "string option" string Tone
| FlightCardComponent string string string "(string \<times> string) list" "(string \<times> string) option"
| ChartComponent string string ChartType "ChartUnit option" "(string \<times> real) list" string
| BadgeRowComponent string "string list"

record BlueprintSection =
  secId :: string
  secTitle :: "string option"
  secDescription :: "string option"
  components :: "EmailComponent list"

record BlueprintMetadata =
  bpSubject :: string
  bpPreviewText :: string
  intro :: string
  callToAction :: "(string \<times> string option) option"
  personalization :: "string option"

record EmailBlueprint =
  metadata :: BlueprintMetadata
  sections :: "BlueprintSection list"

text \<open>
  The branch that renders a blueprint (\<^verbatim>\<open>renderBlueprintEmail\<close> of either template)
  runs inside a \<^verbatim>\<open>try\<close>: it is a parameter that returns an email or throws, so that
  what is proved holds whatever the blueprint renders to.
\<close>

record BlueprintRenderer =
  renderDailyBlueprint :: "DailyPriceUpdateEmail \<Rightarrow> EmailBlueprint \<Rightarrow> string \<Rightarrow> string \<Rightarrow> error + RenderedEmail"
  renderPriceDropBlueprint :: "PriceDropAlertEmail \<Rightarrow> EmailBlueprint \<Rightarrow> string \<Rightarrow> string \<Rightarrow> error + RenderedEmail"

subsection \<open>The daily template\<close>

definition longOptions :: "(string \<times> string) list" where
  "longOptions =
     [(''month'', ''long''), (''day'', ''numeric''), (''hour'', ''numeric''), (''minute'', ''numeric'')]"

text \<open>The badges of an alert: the entries that are not null, in order.\<close>

definition alertBadges :: "Formatters \<Rightarrow> string \<Rightarrow> AlertDescriptor \<Rightarrow> string list" where
  "alertBadges fm limitWord a =
     (if truthy_str (adSeatType a) then [case adSeatType a of None \<Rightarrow> [] | Some x \<Rightarrow> x] else [])
     @ (if truthy_str (adStops a) then [case adStops a of None \<Rightarrow> [] | Some x \<Rightarrow> x] else [])
     @ (case adAirlines a of
          None \<Rightarrow> []
        | Some codes \<Rightarrow> if length codes > 0 then [''Airlines: '' @ joinWithAnd fm codes] else [])
     @ (case adPriceLimit a of
          None \<Rightarrow> []
        | Some (amt, cur) \<Rightarrow> [limitWord @ formatCurrency fm amt cur []])"

definition flightCards :: "Formatters \<Rightarrow> AlertDescriptor \<Rightarrow> FlightOption list \<Rightarrow> FlightCardProps list" where
  "flightCards fm a fls =
     map (\<lambda>(idx, flight).
            \<lparr>cardTitle = ''Option '' @ showNat (idx + 1),
             cardDescription = adOrigin a @ '' '' @ arrow @ '' '' @ adDestination a,
             highlights = buildFlightHighlights fm flight, cardAction = None\<rparr>)
       (List.enumerate 0 fls)"

definition renderFallbackSections :: "Formatters \<Rightarrow> DailyPriceUpdateEmail \<Rightarrow> node list" where
  "renderFallbackSections fm payload =
     (if length (summaries payload) = 0
      then [EmailSection None None
              [TextBlock None ''No new flight matches were found in the past day.'']]
      else map (\<lambda>summary.
                  EmailSection (Some (adLabel (dsAlert summary)))
                    (Some (adOrigin (dsAlert summary) @ '' '' @ arrow @ '' '' @ adDestination (dsAlert summary)
                           @ '' '' @ bullet @ '' Updated ''
                           @ formatDateTime fm (generatedAt summary) longOptions))
                    [BadgeRow (alertBadges fm ''Max '' (dsAlert summary)),
                     FlightCardGrid (flightCards fm (dsAlert summary) (dsFlights summary))])
             (summaries payload))"

definition renderDailyFallbackEmail :: "Formatters \<Rightarrow> DailyPriceUpdateEmail \<Rightarrow> string \<Rightarrow> string \<Rightarrow> RenderedEmail" where
  "renderDailyFallbackEmail fm payload subj previewText =
     renderEmail subj
       (wrapWithLayout previewText
          (EmailSection (Some ''Daily flight price update'') None
             [TextBlock None (''Summary for '' @ escapeHtml fm (formatDate fm (summaryDate payload)))]
           # renderFallbackSections fm payload))"

definition dailySubject :: "Formatters \<Rightarrow> DailyPriceUpdateEmail \<Rightarrow> string" where
  "dailySubject fm payload = ''Daily update: '' @ formatDate fm (summaryDate payload) @ '' alerts''"

definition dailyPreviewText :: "DailyPriceUpdateEmail \<Rightarrow> string" where
  "dailyPreviewText payload =
     (if length (summaries payload) \<noteq> 0
      then ''Top matches for '' @ showNat (length (summaries payload)) @ '' active alert''
           @ (if length (summaries payload) > 1 then ''s'' else []) @ ''.''
      else ''No new matches today.'')"

definition renderDailyPriceUpdateEmail ::
  "Formatters \<Rightarrow> BlueprintRenderer \<Rightarrow> DailyPriceUpdateEmail \<Rightarrow> EmailBlueprint option \<Rightarrow> error + RenderedEmail" where
  "renderDailyPriceUpdateEmail fm br payload blueprint =
     (case blueprint of
        None \<Rightarrow> Inr (renderDailyFallbackEmail fm payload (dailySubject fm payload) (dailyPreviewText payload))
      | Some b \<Rightarrow>
          (case renderDailyBlueprint br payload b (dailySubject fm payload) (dailyPreviewText payload) of
             Inr email \<Rightarrow> Inr email
           | Inl e \<Rightarrow>
               Inr (renderDailyFallbackEmail fm payload (dailySubject fm payload) (dailyPreviewText payload))))"

subsection \<open>The price drop template\<close>

record HeroContent =
  heroTitle :: string
  heroSubtitle :: string
  heroUpdated :: string
  heroBadges :: "string list"
  heroSummary :: "string option"

definition priceSummaryOpen :: string where
  "priceSummaryOpen =
     ''<div style='' @ [CHR 0x22] @ ''font-size:14px; color:#4338ca; margin-top:12px;'' @ [CHR 0x22] @ ''>''"

definition buildHeroContent :: "Formatters \<Rightarrow> PriceDropAlertEmail \<Rightarrow> HeroContent" where
  "buildHeroContent fm payload =
     (let detectedLabel = formatDateTime fm (detectedAt payload) longOptions;
          priceSummary =
            (case newLowestPrice payload of
               None \<Rightarrow> []
             | Some (amt, cur) \<Rightarrow>
                 (case previousLowestPrice payload of
                    Some (pamt, pcur) \<Rightarrow>
                      priceSummaryOpen @ ''New low price '' @ escapeHtml fm (formatCurrency fm amt cur [])
                      @ '' (was '' @ escapeHtml fm (formatCurrency fm pamt pcur []) @ '')</div>''
                  | None \<Rightarrow>
                      priceSummaryOpen @ ''Lowest available price ''
                      @ escapeHtml fm (formatCurrency fm amt cur []) @ ''</div>''))
      in \<lparr>heroTitle = adOrigin (pdAlert payload) @ '' '' @ arrow @ '' '' @ adDestination (pdAlert payload),
          heroSubtitle = ''Alert: '' @ adLabel (pdAlert payload),
          heroUpdated = ''Updated '' @ detectedLabel,
          heroBadges = alertBadges fm ''Target: '' (pdAlert payload),
          heroSummary = (if priceSummary \<noteq> [] then Some priceSummary else None)\<rparr>)"

definition renderHero :: "Formatters \<Rightarrow> PriceDropAlertEmail \<Rightarrow> node" where
  "renderHero fm payload =
     (let hero = buildHeroContent fm payload
      in El ''section'' [css [(''padding'', ''32px 28px''), (''border-bottom'', ''1px solid #e2e8f0''),
                              (''background'', ''linear-gradient(135deg, #eef2ff 0%, #fff 100%)'')]]
           ([El ''div'' [css [(''font-size'', ''13px''), (''color'', ''#64748b''),
                              (''text-transform'', ''uppercase''), (''letter-spacing'', ''0.1em'')]]
               [Txt ''Price drop detected''],
             El ''h1'' [css [(''margin'', ''8px 0 0''), (''font-size'', ''22px''), (''color'', ''#0f172a'')]]
               [Txt (heroTitle hero)],
             El ''div'' [css [(''font-size'', ''14px''), (''color'', ''#475569''), (''margin-top'', ''6px'')]]
               [Txt (heroSubtitle hero)],
             El ''div'' [css [(''font-size'', ''13px''), (''color'', ''#64748b''), (''margin-top'', ''6px'')]]
               [Txt (heroUpdated hero)]]
            @ (if length (heroBadges hero) \<noteq> 0
               then [El ''div'' [css [(''margin-top'', ''10px''), (''display'', ''flex''), (''gap'', ''6px''),
                                      (''flex-wrap'', ''wrap'')]]
                       (map (\<lambda>label.
                               El ''span'' [css [(''display'', ''inline-block''), (''padding'', ''4px 10px''),
                                                 (''font-size'', ''12px''), (''border-radius'', ''9999px''),
                                                 (''background'', ''#eef2ff''), (''color'', ''#4338ca''),
                                                 (''letter-spacing'', ''0.02em'')]]
                                 [Txt label])
                          (heroBadges hero))]
               else [])
            @ (case heroSummary hero of
                 None \<Rightarrow> []
               | Some sm \<Rightarrow>
                   [El ''div'' [css [(''font-size'', ''14px''), (''color'', ''#4338ca''), (''margin-top'', ''12px'')]]
                      [Txt sm]])))"

definition renderPriceDropFallbackEmail :: "Formatters \<Rightarrow> PriceDropAlertEmail \<Rightarrow> string \<Rightarrow> string \<Rightarrow> RenderedEmail" where
  "renderPriceDropFallbackEmail fm payload subj previewText =
     renderEmail subj
       (wrapWithLayout previewText
          [renderHero fm payload,
           EmailSection None None
             [TextBlock None
                ''Here are the best matches right now. Prices can change quickly, so book soon if any option works for you.'',
              FlightCardGrid (flightCards fm (pdAlert payload) (pdFlights payload))]])"

definition priceDropSubject :: "PriceDropAlertEmail \<Rightarrow> string" where
  "priceDropSubject payload =
     ''Price drop: '' @ adOrigin (pdAlert payload) @ '' '' @ arrow @ '' '' @ adDestination (pdAlert payload)"

definition priceDropPreview :: "Formatters \<Rightarrow> PriceDropAlertEmail \<Rightarrow> string" where
  "priceDropPreview fm payload =
     (case newLowestPrice payload of
        None \<Rightarrow> formatDate fm (detectedAt payload)
      | Some (amt, cur) \<Rightarrow>
          formatCurrency fm amt cur [(''maximumFractionDigits'', ''0'')] @ '' '' @ bullet @ '' ''
          @ formatDate fm (detectedAt payload))"

definition renderPriceDropAlertEmail ::
  "Formatters \<Rightarrow> BlueprintRenderer \<Rightarrow> PriceDropAlertEmail \<Rightarrow> EmailBlueprint option \<Rightarrow> error + RenderedEmail" where
  "renderPriceDropAlertEmail fm br payload blueprint =
     (case blueprint of
        None \<Rightarrow>
          Inr (renderPriceDropFallbackEmail fm payload (priceDropSubject payload) (priceDropPreview fm payload))
      | Some b \<Rightarrow>
          (case renderPriceDropBlueprint br payload b (priceDropSubject payload) (priceDropPreview fm payload) of
             Inr email \<Rightarrow> Inr email
           | Inl e \<Rightarrow>
               Inr (renderPriceDropFallbackEmail fm payload (priceDropSubject payload)
                      (priceDropPreview fm payload))))"

text \<open>Rendering a payload of either kind, with a blueprint or without.\<close>

definition render :: "Formatters \<Rightarrow> BlueprintRenderer \<Rightarrow> NotificationEmailPayload \<Rightarrow> EmailBlueprint option \<Rightarrow> error + RenderedEmail" where
  "render fm br payload blueprint =
     (case payload of
        DailyPriceUpdate p \<Rightarrow> renderDailyPriceUpdateEmail fm br p blueprint
      | PriceDropAlert p \<Rightarrow> renderPriceDropAlertEmail fm br p blueprint)"

section \<open>Notification Content Pipeline: the blueprint from the AI\<close>

subsection \<open>The blueprint schema\<close>

text \<open>
  What the generation collaborator returns is any JavaScript value: a \<open>json\<close>. An
  object is the list of its keys with their values, each key once.
  \<^verbatim>\<open>EmailBlueprintSchema.safeParse\<close> is a parser from such a value to a blueprint, with
  \<open>None\<close> for a failure; it follows the schema field by field. Whether a string is a
  URL is the parameter \<open>isUrl\<close>. A key that is missing is an absent optional field.
\<close>

datatype json =
  JNull | JBool bool | JNum real | JNaN | JInfinity | JStr string | JArr "json list"
| JObj "(string \<times> json) list"

definition truthy_json :: "json \<Rightarrow> bool" where
  "truthy_json j =
     (case j of
        JNull \<Rightarrow> False
      | JBool b \<Rightarrow> b
      | JNum n \<Rightarrow> n \<noteq> 0
      | JNaN \<Rightarrow> False
      | JInfinity \<Rightarrow> True
      | JStr s \<Rightarrow> s \<noteq> []
      | JArr xs \<Rightarrow> True
      | JObj kv \<Rightarrow> True)"

definition zString :: "nat \<Rightarrow> nat option \<Rightarrow> json \<Rightarrow> string option" where
  "zString lo hi j =
     (case j of
        JStr s \<Rightarrow>
          if lo \<le> length s \<and> (case hi of None \<Rightarrow> True | Some h \<Rightarrow> length s \<le> h) then Some s else None
      | _ \<Rightarrow> None)"

definition zUrl :: "(string \<Rightarrow> bool) \<Rightarrow> json \<Rightarrow> string option" where
  "zUrl isUrl j = (case j of JStr s \<Rightarrow> if isUrl s then Some s else None | _ \<Rightarrow> None)"

definition zFinite :: "json \<Rightarrow> real option" where
  "zFinite j = (case j of JNum n \<Rightarrow> Some n | _ \<Rightarrow> None)"

definition zRequired :: "(json \<Rightarrow> 'a option) \<Rightarrow> json option \<Rightarrow> 'a option" where
  "zRequired p field = (case field of None \<Rightarrow> None | Some j \<Rightarrow> p j)"

definition zOptional :: "(json \<Rightarrow> 'a option) \<Rightarrow> json option \<Rightarrow> 'a option option" where
  "zOptional p field = (case field of None \<Rightarrow> Some None | Some j \<Rightarrow> map_option Some (p j))"

definition zArray :: "(json \<Rightarrow> 'a option) \<Rightarrow> nat \<Rightarrow> nat \<Rightarrow> json \<Rightarrow> 'a list option" where
  "zArray p lo hi j =
     (case j of
        JArr xs \<Rightarrow> if lo \<le> length xs \<and> length xs \<le> hi then those (map p xs) else None
      | _ \<Rightarrow> None)"

definition zObject :: "((string \<Rightarrow> json option) \<Rightarrow> 'a option) \<Rightarrow> json \<Rightarrow> 'a option" where
  "zObject p j = (case j of JObj kv \<Rightarrow> p (map_of kv) | _ \<Rightarrow> None)"

definition zTone :: "json option \<Rightarrow> Tone option" where
  "zTone field =
     (case field of
        None \<Rightarrow> Some concise
      | Some j \<Rightarrow>
          map_of [(JStr ''concise'', concise), (JStr ''detailed'', detailed), (JStr ''urgent'', urgent),
                  (JStr ''celebratory'', celebratory)] j)"

definition zChartType :: "json \<Rightarrow> ChartType option" where
  "zChartType j = map_of [(JStr ''sparkline'', sparkline), (JStr ''bar'', bar)] j"

definition zChartUnit :: "json \<Rightarrow> ChartUnit option" where
  "zChartUnit j =
     map_of [(JStr ''usd'', usd), (JStr ''minutes'', minutes), (JStr ''percent'', percent),
             (JStr ''count'', count)] j"

definition parseLabelled :: "nat \<Rightarrow> json \<Rightarrow> string option" where
  "parseLabelled hi = zObject (\<lambda>get. zRequired (zString 1 (Some hi)) (get ''label''))"

definition parseHighlight :: "json \<Rightarrow> (string \<times> string) option" where
  "parseHighlight =
     zObject (\<lambda>get.
       Option.bind (zRequired (zString 1 (Some 60)) (get ''label'')) (\<lambda>l.
       Option.bind (zRequired (zString 1 (Some 120)) (get ''value'')) (\<lambda>v.
       Some (l, v))))"

definition parseAction :: "(string \<Rightarrow> bool) \<Rightarrow> json \<Rightarrow> (string \<times> string) option" where
  "parseAction isUrl =
     zObject (\<lambda>get.
       Option.bind (zRequired (zString 1 (Some 50)) (get ''label'')) (\<lambda>l.
       Option.bind (zRequired (zUrl isUrl) (get ''url'')) (\<lambda>u.
       Some (l, u))))"

definition parsePoint :: "json \<Rightarrow> (string \<times> real) option" where
  "parsePoint =
     zObject (\<lambda>get.
       Option.bind (zRequired (zString 1 (Some 40)) (get ''label'')) (\<lambda>l.
       Option.bind (zRequired zFinite (get ''value'')) (\<lambda>v.
       Some (l, v))))"

definition TextBlockComponentSchema :: "(string \<Rightarrow> json option) \<Rightarrow> EmailComponent option" where
  "TextBlockComponentSchema get =
     Option.bind (zRequired (zString 1 None) (get ''id'')) (\<lambda>i.
     Option.bind (zOptional (zString 1 (Some 120)) (get ''headline'')) (\<lambda>h.
     Option.bind (zRequired (zString 1 (Some 800)) (get ''body'')) (\<lambda>b.
     Option.bind (zTone (get ''tone'')) (\<lambda>t.
     Some (TextComponent i h b t)))))"

definition FlightCardComponentSchema :: "(string \<Rightarrow> bool) \<Rightarrow> (string \<Rightarrow> json option) \<Rightarrow> EmailComponent option" where
  "FlightCardComponentSchema isUrl get =
     Option.bind (zRequired (zString 1 None) (get ''id'')) (\<lambda>i.
     Option.bind (zRequired (zString 1 (Some 120)) (get ''title'')) (\<lambda>t.
     Option.bind (zRequired (zString 1 (Some 240)) (get ''description'')) (\<lambda>d.
     Option.bind (zRequired (zArray parseHighlight 1 6) (get ''highlights'')) (\<lambda>hs.
     Option.bind (zOptional (parseAction isUrl) (get ''action'')) (\<lambda>a.
     Some (FlightCardComponent i t d hs a))))))"

definition ChartComponentSchema :: "(string \<Rightarrow> json option) \<Rightarrow> EmailComponent option" where
  "ChartComponentSchema get =
     Option.bind (zRequired (zString 1 None) (get ''id'')) (\<lambda>i.
     Option.bind (zRequired (zString 1 (Some 120)) (get ''title'')) (\<lambda>t.
     Option.bind (zRequired zChartType (get ''chartType'')) (\<lambda>ct.
     Option.bind (zOptional zChartUnit (get ''unit'')) (\<lambda>u.
     Option.bind (zRequired (zArray parsePoint 2 20) (get ''data'')) (\<lambda>ds.
     Option.bind (zRequired (zString 1 (Some 200)) (get ''summary'')) (\<lambda>sm.
     Some (ChartComponent i t ct u ds sm)))))))"

definition BadgeRowComponentSchema :: "(string \<Rightarrow> json option) \<Rightarrow> EmailComponent option" where
  "BadgeRowComponentSchema get =
     Option.bind (zRequired (zString 1 None) (get ''id'')) (\<lambda>i.
     Option.bind (zRequired (zArray (parseLabelled 40) 1 10) (get ''items'')) (\<lambda>items.
     Some (BadgeRowComponent i items)))"

text \<open>The discriminated union on \<^verbatim>\<open>type\<close>.\<close>

definition EmailComponentSchema :: "(string \<Rightarrow> bool) \<Rightarrow> json \<Rightarrow> EmailComponent option" where
  "EmailComponentSchema isUrl =
     zObject (\<lambda>get.
       case get ''type'' of
         Some (JStr k) \<Rightarrow>
           if k = ''text'' then TextBlockComponentSchema get
           else if k = ''flight-card'' then FlightCardComponentSchema isUrl get
           else if k = ''chart'' then ChartComponentSchema get
           else if k = ''badge-row'' then BadgeRowComponentSchema get
           else None
       | _ \<Rightarrow> None)"

definition EmailSectionSchema :: "(string \<Rightarrow> bool) \<Rightarrow> json \<Rightarrow> BlueprintSection option" where
  "EmailSectionSchema isUrl =
     zObject (\<lambda>get.
       Option.bind (zRequired (zString 1 None) (get ''id'')) (\<lambda>i.
       Option.bind (zOptional (zString 1 (Some 120)) (get ''title'')) (\<lambda>t.
       Option.bind (zOptional (zString 1 (Some 240)) (get ''description'')) (\<lambda>d.
       Option.bind (zRequired (zArray (EmailComponentSchema isUrl) 1 6) (get ''components'')) (\<lambda>cs.
       Some \<lparr>secId = i, secTitle = t, secDescription = d, components = cs\<rparr>)))))"

definition parseCallToAction :: "(string \<Rightarrow> bool) \<Rightarrow> json \<Rightarrow> (string \<times> string option) option" where
  "parseCallToAction isUrl =
     zObject (\<lambda>get.
       Option.bind (zRequired (zString 1 (Some 60)) (get ''label'')) (\<lambda>l.
       Option.bind (zOptional (zUrl isUrl) (get ''url'')) (\<lambda>u.
       Some (l, u))))"

definition EmailBlueprintMetadataSchema :: "(string \<Rightarrow> bool) \<Rightarrow> json \<Rightarrow> BlueprintMetadata option" where
  "EmailBlueprintMetadataSchema isUrl =
     zObject (\<lambda>get.
       Option.bind (zRequired (zString 1 (Some 120)) (get ''subject'')) (\<lambda>s.
       Option.bind (zRequired (zString 1 (Some 180)) (get ''previewText'')) (\<lambda>pv.
       Option.bind (zRequired (zString 1 (Some 600)) (get ''intro'')) (\<lambda>i.
       Option.bind (zOptional (parseCallToAction isUrl) (get ''callToAction'')) (\<lambda>cta.
       Option.bind (zOptional (zString 0 (Some 240)) (get ''personalization'')) (\<lambda>p.
       Some \<lparr>bpSubject = s, bpPreviewText = pv, intro = i, callToAction = cta,
              personalization = p\<rparr>))))))"

definition EmailBlueprintSchema_safeParse :: "(string \<Rightarrow> bool) \<Rightarrow> json \<Rightarrow> EmailBlueprint option" where
  "EmailBlueprintSchema_safeParse isUrl =
     zObject (\<lambda>get.
       Option.bind (zRequired (EmailBlueprintMetadataSchema isUrl) (get ''metadata'')) (\<lambda>m.
       Option.bind (zRequired (zArray (EmailSectionSchema isUrl) 1 6) (get ''sections'')) (\<lambda>ss.
       Some \<lparr>metadata = m, sections = ss\<rparr>)))"

subsection \<open>Generating a blueprint and rendering with it\<close>

text \<open>
  The generation collaborator: its credential and \<^verbatim>\<open>generateObject\<close>, which answers a
  request with a value or throws. The request carries the kind, the prompt and the
  context; the context is computed from the payload alone, by functions that return for
  every payload (\<^verbatim>\<open>buildDailyDigestBlueprintContext\<close>,
  \<^verbatim>\<open>buildPriceDropBlueprintContext\<close>), so the answer is a function of the kind, the
  prompt and the payload.
\<close>

datatype BlueprintKind = PriceDropKind | DailyUpdateKind

record AiGateway =
  AI_GATEWAY_API_KEY :: "string option"
  generateObject :: "BlueprintKind \<Rightarrow> string \<Rightarrow> NotificationEmailPayload \<Rightarrow> error + json"
  isUrl :: "string \<Rightarrow> bool"

text \<open>\<^verbatim>\<open>generateBlueprint\<close>: null without a credential, after a throw, for a falsy answer
  and for an answer the schema rejects.\<close>

definition generateBlueprint :: "AiGateway \<Rightarrow> BlueprintKind \<Rightarrow> string \<Rightarrow> NotificationEmailPayload \<Rightarrow> EmailBlueprint option" where
  "generateBlueprint gw kind prompt payload =
     (if \<not> truthy_str (AI_GATEWAY_API_KEY gw) then None
      else
        (case generateObject gw kind prompt payload of
           Inl e \<Rightarrow> None
         | Inr candidate \<Rightarrow>
             if truthy_json candidate
             then (case EmailBlueprintSchema_safeParse (isUrl gw) candidate of
                     Some validated \<Rightarrow> Some validated
                   | None \<Rightarrow> None)
             else None))"

definition generatePriceDropBlueprint :: "AiGateway \<Rightarrow> PriceDropAlertEmail \<Rightarrow> EmailBlueprint option" where
  "generatePriceDropBlueprint gw payload =
     generateBlueprint gw PriceDropKind
       ''Flight alert price drop context provided. Produce a compelling summary highlighting savings, urgency, and best flight options.''
       (PriceDropAlert payload)"

definition generateDailyDigestBlueprint :: "AiGateway \<Rightarrow> DailyPriceUpdateEmail \<Rightarrow> EmailBlueprint option" where
  "generateDailyDigestBlueprint gw payload =
     generateBlueprint gw DailyUpdateKind
       ''Daily flight alert digest context provided. Summarize key findings, highlight notable routes, and include chart-ready insights.''
       (DailyPriceUpdate payload)"

text \<open>
  \<^verbatim>\<open>renderDailyDigestEmailWithAI\<close> and \<^verbatim>\<open>renderPriceDropEmailWithAI\<close>: the template
  without a blueprint when there is none, and again after a throw.
\<close>

definition renderDailyDigestEmailWithAI ::
  "Formatters \<Rightarrow> BlueprintRenderer \<Rightarrow> AiGateway \<Rightarrow> DailyPriceUpdateEmail \<Rightarrow> error + RenderedEmail" where
  "renderDailyDigestEmailWithAI fm br gw payload =
     (case generateDailyDigestBlueprint gw payload of
        None \<Rightarrow> renderDailyPriceUpdateEmail fm br payload None
      | Some blueprint \<Rightarrow>
          (case renderDailyPriceUpdateEmail fm br payload (Some blueprint) of
             Inr email \<Rightarrow> Inr email
           | Inl e \<Rightarrow> renderDailyPriceUpdateEmail fm br payload None))"

definition renderPriceDropEmailWithAI ::
  "Formatters \<Rightarrow> BlueprintRenderer \<Rightarrow> AiGateway \<Rightarrow> PriceDropAlertEmail \<Rightarrow> error + RenderedEmail" where
  "renderPriceDropEmailWithAI fm br gw payload =
     (case generatePriceDropBlueprint gw payload of
        None \<Rightarrow> renderPriceDropAlertEmail fm br payload None
      | Some blueprint \<Rightarrow>
          (case renderPriceDropAlertEmail fm br payload (Some blueprint) of
             Inr email \<Rightarrow> Inr email
           | Inl e \<Rightarrow> renderPriceDropAlertEmail fm br payload None))"

definition buildEmailContent ::
  "Formatters \<Rightarrow> BlueprintRenderer \<Rightarrow> AiGateway \<Rightarrow> NotificationEmailPayload \<Rightarrow> error + RenderedEmail" where
  "buildEmailContent fm br gw payload =
     (case payload of
        DailyPriceUpdate p \<Rightarrow> renderDailyDigestEmailWithAI fm br gw p
      | PriceDropAlert p \<Rightarrow> renderPriceDropEmailWithAI fm br gw p)"

text \<open>The request the pipeline sends for a payload.\<close>

definition requestKind :: "NotificationEmailPayload \<Rightarrow> BlueprintKind" where
  "requestKind payload = (case payload of DailyPriceUpdate p \<Rightarrow> DailyUpdateKind | PriceDropAlert p \<Rightarrow> PriceDropKind)"

definition requestPrompt :: "NotificationEmailPayload \<Rightarrow> string" where
  "requestPrompt payload =
     (case payload of
        DailyPriceUpdate p \<Rightarrow>
          ''Daily flight alert digest context provided. Summarize key findings, highlight notable routes, and include chart-ready insights.''
      | PriceDropAlert p \<Rightarrow>
          ''Flight alert price drop context provided. Produce a compelling summary highlighting savings, urgency, and best flight options.'')"

section \<open>Auxiliary notions and example data\<close>

text \<open>Two codes are equal ignoring letter case when their upper-cased forms agree.\<close>

definition equalIgnoringCase :: "string \<Rightarrow> string \<Rightarrow> bool" where
  "equalIgnoringCase a b = (toUpperCase a = toUpperCase b)"

text \<open>
  What one alert contributes to the output of the batch: its entry when the body of
  \<^verbatim>\<open>fetchFlightsForAlert\<close> returned an entry with a flight, nothing otherwise.
\<close>

definition alertEntry :: "Runtime \<Rightarrow> 'v Collaborators \<Rightarrow> int option \<Rightarrow> Alert \<Rightarrow> AlertWithFlights list" where
  "alertEntry rt co m a =
     (case fetchFlightsForAlert_try rt co a m of
        Inl e \<Rightarrow> []
      | Inr None \<Rightarrow> []
      | Inr (Some r) \<Rightarrow> if flights r = [] then [] else [r])"

text \<open>When an alert has expired: its end date is a valid date at or before now.\<close>

definition expiredAt :: "Runtime \<Rightarrow> Alert \<Rightarrow> bool" where
  "expiredAt rt a =
     (case alertEnd a of
        None \<Rightarrow> False
      | Some s \<Rightarrow> (case newDate rt s of None \<Rightarrow> False | Some t \<Rightarrow> t \<le> now rt))"

text \<open>The calendar date of now in the local zone of the runtime.\<close>

definition localDate :: "Runtime \<Rightarrow> string" where
  "localDate rt = toISODate (LocalTime rt (now rt))"

text \<open>
  Example data: a runtime in UTC at noon of 5 June 2025, flights from SFO to JFK, and the
  alert of the end-to-end scenario.
\<close>

definition exRuntime :: Runtime where
  "exRuntime =
     \<lparr>now = 1749124800000, localTZA = (\<lambda>t isUTC. 0),
      parseOther = map_of
        [(''2025-06-05T12:00:00.000Z'', 1749124800000),
         (''2025-06-05T12:00:00.001Z'', 1749124800001)]\<rparr>"

text \<open>
  Runtimes in other zones, none of them on a day when the offset changes: Los Angeles at
  noon of 4 June 2025 (seven hours behind UTC), and Tokyo at noon of 4 June 2025 (nine
  hours ahead). And New York in the afternoon of 2 November 2025, the day its clocks go
  back at 06:00 UTC: four hours behind before, five after, and a local time is read with
  the offset before the change as long as it can be.
\<close>

definition laRuntime :: Runtime where
  "laRuntime = \<lparr>now = 1749063600000, localTZA = (\<lambda>t isUTC. - 25200000), parseOther = (\<lambda>s. None)\<rparr>"

definition tokyoRuntime :: Runtime where
  "tokyoRuntime = \<lparr>now = 1749006000000, localTZA = (\<lambda>t isUTC. 32400000), parseOther = (\<lambda>s. None)\<rparr>"

definition nyRuntime :: Runtime where
  "nyRuntime =
     \<lparr>now = 1762110000000,
      localTZA = (\<lambda>t isUTC.
                    if isUTC then (if t < 1762063200000 then - 14400000 else - 18000000)
                    else (if t < 1762048800000 then - 14400000 else - 18000000)),
      parseOther = map_of [(''2025-11-02T04:30:00Z'', 1762057800000)]\<rparr>"

definition exLeg :: "string \<Rightarrow> Leg" where
  "exLeg code =
     \<lparr>airlineCode = code, departureAirportCode = ''SFO'',
      departureDateTime = ''2025-06-06T08:00:00'', arrivalAirportCode = ''JFK'',
      arrivalDateTime = ''2025-06-06T16:30:00''\<rparr>"

definition exFlight :: "real \<Rightarrow> nat \<Rightarrow> string \<Rightarrow> FlightOption" where
  "exFlight p n code =
     \<lparr>totalPrice = p, currency = ''USD'',
      slices = [\<lparr>stops = n, durationMinutes = 330, legs = [exLeg code]\<rparr>]\<rparr>"

definition noCriteria :: Criteria where
  "noCriteria =
     \<lparr>dateFrom = None, dateTo = None, departureTimeRange = None, arrivalTimeRange = None,
      cabinClass = None, stopsTier = None, airlines = None, price = None\<rparr>"

definition exCriteria :: Criteria where
  "exCriteria = noCriteria\<lparr>dateFrom := Some ''2025-06-01'', stopsTier := Some ''NONSTOP'', price := Some 300\<rparr>"

definition exFilters :: "string \<Rightarrow> Criteria \<Rightarrow> AlertFilters" where
  "exFilters src c = \<lparr>route = \<lparr>route_from = src, route_to = ''JFK''\<rparr>, filters = Some c\<rparr>"

definition exAlert :: "string \<Rightarrow> string \<Rightarrow> Criteria \<Rightarrow> string option \<Rightarrow> Alert" where
  "exAlert i src c e =
     \<lparr>alert_id = i, userId = ''user-1'', alertType = ''daily'', status = active,
      alertFilters = exFilters src c, alertEnd = e\<rparr>"

text \<open>A collaborator that accepts every query and fails for the origin \<open>XXX\<close>.\<close>

definition exCollaborators :: "FlightOption list \<Rightarrow> FlightFiltersInput Collaborators" where
  "exCollaborators found =
     \<lparr>parseFlightFiltersInput = Inr,
      searchFlights = (\<lambda>q. if map origin (segments q) = [''XXX''] then Inl (SearchFailure ''timeout'')
                            else Inr found)\<rparr>"

text \<open>Six results of a search, and the query the translator builds for the example alert.\<close>

definition exFound :: "FlightOption list" where
  "exFound =
     [exFlight 400 0 ''UA'', exFlight 250 0 ''UA'', exFlight 410 0 ''UA'', exFlight 420 1 ''UA'',
      exFlight 430 0 ''UA'', exFlight 240 0 ''UA'']"

definition exQuery :: "string \<Rightarrow> FlightFiltersInput" where
  "exQuery src =
     \<lparr>tripType = ONE_WAY,
      segments = [\<lparr>origin = src, destination = ''JFK'', departureDate = ''2025-06-06'',
                   segDepartureTimeRange = None, segArrivalTimeRange = None\<rparr>],
      dateRange = \<lparr>rangeFrom = ''2025-06-06'', rangeTo = ''2025-06-06''\<rparr>,
      seatType = ECONOMY, maxStops = NON_STOP, inputAirlines = None,
      priceLimit = Some \<lparr>amount = 300, limitCurrency = USD\<rparr>\<rparr>"

text \<open>An alert is completed in a store when its row is there with that status.\<close>

definition completedIn :: "AlertStore \<Rightarrow> string \<Rightarrow> bool" where
  "completedIn store alertId = (case store alertId of None \<Rightarrow> False | Some row \<Rightarrow> status row = completed)"

text \<open>A store with a completed and an active alert, both past their end.\<close>

definition exStore :: AlertStore where
  "exStore =
     [''a1'' \<mapsto> (exAlert ''a1'' ''SFO'' exCriteria (Some ''2025-06-01''))\<lparr>status := completed\<rparr>,
      ''a2'' \<mapsto> exAlert ''a2'' ''SFO'' exCriteria (Some ''2025-06-01'')]"

text \<open>
  The text of a node: what is left of its markup once the tags are stripped. A node is
  well formed when no tag or attribute name holds the character that closes a tag. A node
  has a text when one of its text children, under elements that are not void, is that text.
\<close>

fun textOf :: "node \<Rightarrow> string" where
  "textOf (Txt s) = escapeText s"
| "textOf (El tag attrs children) =
     (if tag \<in> set voidElements then [] else concat (map textOf children))"

fun wellFormed :: "node \<Rightarrow> bool" where
  "wellFormed (Txt s) = True"
| "wellFormed (El tag attrs children) =
     (CHR ''>'' \<notin> set tag \<and> list_all (\<lambda>a. CHR ''>'' \<notin> set (fst a)) attrs \<and> list_all wellFormed children)"

fun hasText :: "string \<Rightarrow> node \<Rightarrow> bool" where
  "hasText t (Txt s) = (s = t)"
| "hasText t (El tag attrs children) = (tag \<notin> set voidElements \<and> list_ex (hasText t) children)"

definition noMatchesSentence :: string where
  "noMatchesSentence = ''No new flight matches were found in the past day.''"

text \<open>
  Example formatters that return their argument, a blueprint branch that throws, and the
  answer of the generation collaborator: the base blueprint of the source with the subject
  as a parameter.
\<close>

definition exFormatters :: Formatters where
  "exFormatters =
     \<lparr>formatDate = (\<lambda>s. s), formatDateTime = (\<lambda>s opts. s), formatCurrency = (\<lambda>a cur opts. cur),
      joinWithAnd = concat, escapeHtml = escapeText, toFixed0 = (\<lambda>x. ''0''),
      toLocaleString = (\<lambda>s opts. s)\<rparr>"

definition exRenderer :: BlueprintRenderer where
  "exRenderer =
     \<lparr>renderDailyBlueprint = (\<lambda>p b s pv. Inl (RenderFailure ''blueprint'')),
      renderPriceDropBlueprint = (\<lambda>p b s pv. Inl (RenderFailure ''blueprint''))\<rparr>"

definition exCandidate :: "string \<Rightarrow> json" where
  "exCandidate subj =
     JObj [(''metadata'',
            JObj [(''subject'', JStr subj),
                  (''previewText'', JStr ''Latest updates based on your alert''),
                  (''intro'', JStr ''Here is your latest flight update.'')]),
           (''sections'',
            JArr [JObj [(''id'', JStr ''overview''), (''title'', JStr ''Summary''),
                        (''description'', JStr ''Snapshot of the most important changes.''),
                        (''components'',
                         JArr [JObj [(''id'', JStr ''overview-text''), (''type'', JStr ''text''),
                                     (''tone'', JStr ''concise''),
                                     (''headline'', JStr ''New flight insights''),
                                     (''body'', JStr ''No major updates were provided.'')]])]])]"

definition exGateway :: "json \<Rightarrow> AiGateway" where
  "exGateway answer =
     \<lparr>AI_GATEWAY_API_KEY = Some ''key'', generateObject = (\<lambda>kind prompt payload. Inr answer),
      isUrl = (\<lambda>s. True)\<rparr>"

definition exDaily :: DailyPriceUpdateEmail where
  "exDaily = \<lparr>summaryDate = ''2025-01-01'', summaries = []\<rparr>"

section \<open>Properties of the Result Filter\<close>

lemmas ex_defs = exFlight_def exLeg_def exCriteria_def noCriteria_def exFilters_def exAlert_def

lemmas conv_defs = convertAlertFiltersToFlightFilters_def rangeExpired_def effectiveDateFrom_def
  baseInput_def segmentsOf_def stopsOf_def seatTypeOf_def withAirlines_def withPriceLimit_def
  optField_def stopsMap_def seatTypeMap_def

lemmas filter_defs = filterFlightsByAlertCriteria_def keepFlight_def truthy_num_def truthy_str_def
  hasValidStops_def hasMatchingAirline_def maxStopsOf_def zero_enat_def one_enat_def

lemmas claimed_defs = claimed_pricePredicate_def claimed_airlinePredicate_def
  claimed_stopsPredicate_def claimed_stopsCeiling_def upperCased_def

text \<open>The dates of the example runtime, at noon of 5 June 2025 in UTC.\<close>

lemma exRuntime_tomorrowStr: "tomorrowStr exRuntime = ''2025-06-06''"
  by code_simp

lemma exRuntime_past: "beforeToday exRuntime ''2025-06-01''"
  by code_simp

lemma optField_simps: "optField g None = None" "optField g (Some b) = g b"
  by (simp_all add: optField_def)

text \<open>The ceilings of the tiers in the source are those of the specification.\<close>

lemma maxStopsOf_claimed: "maxStopsOf tier = claimed_stopsCeiling tier"
  by (simp add: maxStopsOf_def claimed_stopsCeiling_def)

lemma claimed_stopsCeiling_empty: "claimed_stopsCeiling [] = \<infinity>"
  by (simp add: claimed_stopsCeiling_def)

lemma keepFlight_conj:
  "keepFlight c flight =
     ((price c = Some 0 \<or> claimed_pricePredicate c flight)
      \<and> (airlines c = Some [] \<or> claimed_airlinePredicate (upperCased c) flight)
      \<and> claimed_stopsPredicate c flight)"
  by (auto simp: keepFlight_def claimed_pricePredicate_def claimed_airlinePredicate_def
      claimed_stopsPredicate_def upperCased_def truthy_num_def truthy_str_def
      hasMatchingAirline_def hasValidStops_def list_ex_iff list_all_iff maxStopsOf_claimed
      claimed_stopsCeiling_empty split: option.splits)

text \<open>
  C2, as the code has it. The Result Filter returns a subsequence of its input in the
  input's order; with no criteria bundle it returns the input. With a criteria bundle it
  keeps exactly the flights that satisfy together the price predicate or a ceiling of 0,
  the airline predicate against the upper-cased allow-set or an empty allow-set, and the
  stops predicate, so the filter of a single flight is non-empty exactly then. When the
  ceiling is not 0, the allow-set is not empty and its codes are in upper case, these are
  the three predicates of the specification themselves.
\<close>

theorem filter_subseq_conjunction:
  "subseq (filterFlightsByAlertCriteria fs af) fs
   \<and> (filters af = None \<longrightarrow> filterFlightsByAlertCriteria fs af = fs)
   \<and> (\<forall>c. filters af = Some c \<longrightarrow>
         filterFlightsByAlertCriteria fs af =
           filter (\<lambda>f. (price c = Some 0 \<or> claimed_pricePredicate c f)
                      \<and> (airlines c = Some [] \<or> claimed_airlinePredicate (upperCased c) f)
                      \<and> claimed_stopsPredicate c f) fs
         \<and> (filterFlightsByAlertCriteria [f0] af \<noteq> [] \<longleftrightarrow>
              (price c = Some 0 \<or> claimed_pricePredicate c f0)
              \<and> (airlines c = Some [] \<or> claimed_airlinePredicate (upperCased c) f0)
              \<and> claimed_stopsPredicate c f0)
         \<and> (price c \<noteq> Some 0 \<and> airlines c \<noteq> Some [] \<and> upperCased c = c \<longrightarrow>
              filterFlightsByAlertCriteria fs af =
                filter (\<lambda>f. claimed_pricePredicate c f \<and> claimed_airlinePredicate c f
                           \<and> claimed_stopsPredicate c f) fs
              \<and> (filterFlightsByAlertCriteria [f0] af \<noteq> [] \<longleftrightarrow>
                   claimed_pricePredicate c f0 \<and> claimed_airlinePredicate c f0
                   \<and> claimed_stopsPredicate c f0)))"
proof -
  have keep: "keepFlight c =
      (\<lambda>f. (price c = Some 0 \<or> claimed_pricePredicate c f)
           \<and> (airlines c = Some [] \<or> claimed_airlinePredicate (upperCased c) f)
           \<and> claimed_stopsPredicate c f)" for c
    by (rule ext) (rule keepFlight_conj)
  have keep': "keepFlight c =
      (\<lambda>f. claimed_pricePredicate c f \<and> claimed_airlinePredicate c f \<and> claimed_stopsPredicate c f)"
    if "price c \<noteq> Some 0" "airlines c \<noteq> Some []" "upperCased c = c" for c
    using that by (intro ext) (simp add: keepFlight_conj)
  have sub: "subseq (filterFlightsByAlertCriteria fs af) fs"
    by (simp add: filterFlightsByAlertCriteria_def split: option.splits)
  have ident: "filters af = None \<longrightarrow> filterFlightsByAlertCriteria fs af = fs"
    by (simp add: filterFlightsByAlertCriteria_def)
  have conj: "filterFlightsByAlertCriteria fs af =
      filter (\<lambda>f. (price c = Some 0 \<or> claimed_pricePredicate c f)
                 \<and> (airlines c = Some [] \<or> claimed_airlinePredicate (upperCased c) f)
                 \<and> claimed_stopsPredicate c f) fs"
    if "filters af = Some c" for c fs
    using that by (simp add: filterFlightsByAlertCriteria_def keep)
  have conj': "filterFlightsByAlertCriteria fs af =
      filter (\<lambda>f. claimed_pricePredicate c f \<and> claimed_airlinePredicate c f
                 \<and> claimed_stopsPredicate c f) fs"
    if "filters af = Some c" "price c \<noteq> Some 0" "airlines c \<noteq> Some []" "upperCased c = c" for c fs
    using that by (simp add: filterFlightsByAlertCriteria_def keep')
  show ?thesis
    using sub ident conj conj' by simp
qed

text \<open>
  A bundle with a ceiling of 300, the tier NONSTOP and the allow-set UA, on four flights:
  one that satisfies the three predicates, and one for each predicate that fails that
  predicate alone. And the ceilings of the other tiers, on flights with as many stops as
  the ceiling and with one more.
\<close>

theorem filter_subseq_conjunction_witness:
  "filters (exFilters ''SFO'' (exCriteria\<lparr>airlines := Some [''UA'']\<rparr>))
     = Some (exCriteria\<lparr>airlines := Some [''UA'']\<rparr>)
   \<and> price (exCriteria\<lparr>airlines := Some [''UA'']\<rparr>) \<noteq> Some 0
   \<and> airlines (exCriteria\<lparr>airlines := Some [''UA'']\<rparr>) \<noteq> Some []
   \<and> upperCased (exCriteria\<lparr>airlines := Some [''UA'']\<rparr>) = exCriteria\<lparr>airlines := Some [''UA'']\<rparr>
   \<and> filterFlightsByAlertCriteria
        [exFlight 350 0 ''UA'', exFlight 250 0 ''UA'', exFlight 250 1 ''UA'', exFlight 250 0 ''DL'',
         exFlight 300 0 ''UA'']
        (exFilters ''SFO'' (exCriteria\<lparr>airlines := Some [''UA'']\<rparr>))
      = [exFlight 250 0 ''UA'', exFlight 300 0 ''UA'']
   \<and> \<not> claimed_pricePredicate (exCriteria\<lparr>airlines := Some [''UA'']\<rparr>) (exFlight 350 0 ''UA'')
   \<and> claimed_airlinePredicate (exCriteria\<lparr>airlines := Some [''UA'']\<rparr>) (exFlight 350 0 ''UA'')
   \<and> claimed_stopsPredicate (exCriteria\<lparr>airlines := Some [''UA'']\<rparr>) (exFlight 350 0 ''UA'')
   \<and> claimed_pricePredicate (exCriteria\<lparr>airlines := Some [''UA'']\<rparr>) (exFlight 250 1 ''UA'')
   \<and> claimed_airlinePredicate (exCriteria\<lparr>airlines := Some [''UA'']\<rparr>) (exFlight 250 1 ''UA'')
   \<and> \<not> claimed_stopsPredicate (exCriteria\<lparr>airlines := Some [''UA'']\<rparr>) (exFlight 250 1 ''UA'')
   \<and> claimed_pricePredicate (exCriteria\<lparr>airlines := Some [''UA'']\<rparr>) (exFlight 250 0 ''DL'')
   \<and> \<not> claimed_airlinePredicate (exCriteria\<lparr>airlines := Some [''UA'']\<rparr>) (exFlight 250 0 ''DL'')
   \<and> claimed_stopsPredicate (exCriteria\<lparr>airlines := Some [''UA'']\<rparr>) (exFlight 250 0 ''DL'')
   \<and> filterFlightsByAlertCriteria [exFlight 250 1 ''UA'', exFlight 250 2 ''UA'']
        (exFilters ''SFO'' (noCriteria\<lparr>stopsTier := Some ''ONE_STOP''\<rparr>)) = [exFlight 250 1 ''UA'']
   \<and> filterFlightsByAlertCriteria [exFlight 250 2 ''UA'', exFlight 250 3 ''UA'']
        (exFilters ''SFO'' (noCriteria\<lparr>stopsTier := Some ''TWO_STOPS''\<rparr>)) = [exFlight 250 2 ''UA'']
   \<and> filterFlightsByAlertCriteria [exFlight 250 7 ''UA'']
        (exFilters ''SFO'' (noCriteria\<lparr>stopsTier := Some ''ANY''\<rparr>)) = [exFlight 250 7 ''UA'']"
proof -
  let ?c = "exCriteria\<lparr>airlines := Some [''UA'']\<rparr>"
  let ?fs = "[exFlight 350 0 ''UA'', exFlight 250 0 ''UA'', exFlight 250 1 ''UA'', exFlight 250 0 ''DL'',
         exFlight 300 0 ''UA'']"
  have h1: "filters (exFilters ''SFO'' ?c) = Some ?c"
    by (simp add: exFilters_def)
  have h2: "price ?c \<noteq> Some 0 \<and> airlines ?c \<noteq> Some []"
    by (simp add: ex_defs)
  have h3: "upperCased ?c = ?c"
    by (simp add: ex_defs upperCased_def toUpperCase_def toUpperChar_def)
  have p: "\<not> claimed_pricePredicate ?c (exFlight 350 0 ''UA'')"
      "claimed_pricePredicate ?c (exFlight 250 0 ''UA'')"
      "claimed_pricePredicate ?c (exFlight 250 1 ''UA'')"
      "claimed_pricePredicate ?c (exFlight 250 0 ''DL'')"
      "claimed_pricePredicate ?c (exFlight 300 0 ''UA'')"
    by (simp_all add: ex_defs claimed_pricePredicate_def)
  have a: "claimed_airlinePredicate ?c (exFlight 350 0 ''UA'')"
      "claimed_airlinePredicate ?c (exFlight 250 0 ''UA'')"
      "claimed_airlinePredicate ?c (exFlight 250 1 ''UA'')"
      "\<not> claimed_airlinePredicate ?c (exFlight 250 0 ''DL'')"
      "claimed_airlinePredicate ?c (exFlight 300 0 ''UA'')"
    by (simp_all add: ex_defs claimed_airlinePredicate_def)
  have s: "claimed_stopsPredicate ?c (exFlight 350 0 ''UA'')"
      "claimed_stopsPredicate ?c (exFlight 250 0 ''UA'')"
      "\<not> claimed_stopsPredicate ?c (exFlight 250 1 ''UA'')"
      "claimed_stopsPredicate ?c (exFlight 250 0 ''DL'')"
      "claimed_stopsPredicate ?c (exFlight 300 0 ''UA'')"
    by (simp_all add: ex_defs claimed_stopsPredicate_def claimed_stopsCeiling_def zero_enat_def)
  note t = filter_subseq_conjunction [of ?fs "exFilters ''SFO'' ?c"]
  from t h1 h2 h3 have "filterFlightsByAlertCriteria ?fs (exFilters ''SFO'' ?c) =
      filter (\<lambda>f. claimed_pricePredicate ?c f \<and> claimed_airlinePredicate ?c f
                 \<and> claimed_stopsPredicate ?c f) ?fs"
    by blast
  then have e: "filterFlightsByAlertCriteria ?fs (exFilters ''SFO'' ?c)
      = [exFlight 250 0 ''UA'', exFlight 300 0 ''UA'']"
    using p a s by simp
  have tiers: "filterFlightsByAlertCriteria [exFlight 250 1 ''UA'', exFlight 250 2 ''UA'']
        (exFilters ''SFO'' (noCriteria\<lparr>stopsTier := Some ''ONE_STOP''\<rparr>)) = [exFlight 250 1 ''UA'']"
      "filterFlightsByAlertCriteria [exFlight 250 2 ''UA'', exFlight 250 3 ''UA'']
        (exFilters ''SFO'' (noCriteria\<lparr>stopsTier := Some ''TWO_STOPS''\<rparr>)) = [exFlight 250 2 ''UA'']"
      "filterFlightsByAlertCriteria [exFlight 250 7 ''UA'']
        (exFilters ''SFO'' (noCriteria\<lparr>stopsTier := Some ''ANY''\<rparr>)) = [exFlight 250 7 ''UA'']"
    by (simp_all add: ex_defs filter_defs numeral_eq_enat)
  from h1 h2 h3 e p a s tiers show ?thesis by simp
qed

text \<open>
  The three predicates of the specification alone do not decide what is kept. A flight
  above a ceiling of 0 fails the price predicate and is kept; with the allow-set
  \<open>ua\<close> a flight with a leg of the code \<open>ua\<close> satisfies the three predicates and is
  dropped, and so is every flight with an allow-set that is given and empty.
\<close>

theorem filter_conjunction_counterexample:
  "\<not> claimed_pricePredicate (noCriteria\<lparr>price := Some 0\<rparr>) (exFlight 9999 0 ''UA'')
   \<and> filterFlightsByAlertCriteria [exFlight 9999 0 ''UA''] (exFilters ''SFO'' (noCriteria\<lparr>price := Some 0\<rparr>))
       = [exFlight 9999 0 ''UA'']
   \<and> claimed_pricePredicate (noCriteria\<lparr>airlines := Some [''ua'']\<rparr>) (exFlight 250 0 ''ua'')
   \<and> claimed_airlinePredicate (noCriteria\<lparr>airlines := Some [''ua'']\<rparr>) (exFlight 250 0 ''ua'')
   \<and> claimed_stopsPredicate (noCriteria\<lparr>airlines := Some [''ua'']\<rparr>) (exFlight 250 0 ''ua'')
   \<and> filterFlightsByAlertCriteria [exFlight 250 0 ''ua''] (exFilters ''SFO'' (noCriteria\<lparr>airlines := Some [''ua'']\<rparr>))
       = []
   \<and> \<not> claimed_airlinePredicate (noCriteria\<lparr>airlines := Some []\<rparr>) (exFlight 250 0 ''UA'')
   \<and> filterFlightsByAlertCriteria [exFlight 250 0 ''UA''] (exFilters ''SFO'' (noCriteria\<lparr>airlines := Some []\<rparr>))
       = [exFlight 250 0 ''UA'']"
  by (simp add: ex_defs claimed_pricePredicate_def claimed_airlinePredicate_def
      claimed_stopsPredicate_def filterFlightsByAlertCriteria_def keepFlight_def
      hasMatchingAirline_def truthy_num_def truthy_str_def toUpperCase_def toUpperChar_def)

subsection \<open>The airline predicate and letter case\<close>

lemma toUpperChar_idem: "toUpperChar (toUpperChar c) = toUpperChar c"
  by (simp add: toUpperChar_def)

lemma toUpperCase_idem: "toUpperCase (toUpperCase s) = toUpperCase s"
  by (simp add: toUpperCase_def toUpperChar_idem)

lemma hasMatchingAirline_iff:
  "hasMatchingAirline codes f \<longleftrightarrow>
     (\<exists>slice \<in> set (slices f). \<exists>leg \<in> set (legs slice). \<exists>code \<in> set codes.
        airlineCode leg = toUpperCase code)"
  by (auto simp: hasMatchingAirline_def list_ex_iff)

lemma upper_match_iff:
  "(x = toUpperCase code) \<longleftrightarrow> (toUpperCase x = x \<and> equalIgnoringCase x code)"
  by (auto simp: equalIgnoringCase_def toUpperCase_idem)

text \<open>
  C8, as the code has it. For a non-empty allow-set the airline predicate compares each
  leg's airline code, as it is, with the upper-cased allow-set: it holds exactly when some
  leg's code is in upper case and equals an allowed code ignoring letter case. The flight
  is kept exactly when it also passes the price predicate (or the ceiling is 0) and the
  stops predicate.
\<close>

theorem airline_match_upper_cased:
  assumes "filters af = Some c" and "airlines c = Some codes" and "codes \<noteq> []"
  shows "(hasMatchingAirline codes f \<longleftrightarrow>
            (\<exists>slice \<in> set (slices f). \<exists>leg \<in> set (legs slice). \<exists>code \<in> set codes.
               toUpperCase (airlineCode leg) = airlineCode leg
               \<and> equalIgnoringCase (airlineCode leg) code))
         \<and> (f \<in> set (filterFlightsByAlertCriteria fs af) \<longleftrightarrow>
              f \<in> set fs \<and> (price c = Some 0 \<or> claimed_pricePredicate c f)
              \<and> claimed_stopsPredicate c f \<and> hasMatchingAirline codes f)"
proof -
  have "hasMatchingAirline codes f \<longleftrightarrow>
      (\<exists>slice \<in> set (slices f). \<exists>leg \<in> set (legs slice). \<exists>code \<in> set codes.
         toUpperCase (airlineCode leg) = airlineCode leg \<and> equalIgnoringCase (airlineCode leg) code)"
    unfolding hasMatchingAirline_iff upper_match_iff ..
  moreover have "claimed_airlinePredicate (upperCased c) f = hasMatchingAirline codes f"
    using assms
    by (auto simp: claimed_airlinePredicate_def upperCased_def hasMatchingAirline_def list_ex_iff)
  ultimately show ?thesis
    using assms by (auto simp: filterFlightsByAlertCriteria_def keepFlight_conj)
qed

theorem airline_match_upper_cased_witness:
  "filters (exFilters ''SFO'' (noCriteria\<lparr>airlines := Some [''ua'']\<rparr>)) = Some (noCriteria\<lparr>airlines := Some [''ua'']\<rparr>)
   \<and> hasMatchingAirline [''ua''] (exFlight 250 0 ''UA'')
   \<and> exFlight 250 0 ''UA'' \<in> set (filterFlightsByAlertCriteria [exFlight 250 0 ''UA'']
        (exFilters ''SFO'' (noCriteria\<lparr>airlines := Some [''ua'']\<rparr>)))
   \<and> \<not> hasMatchingAirline [''UA''] (exFlight 250 0 ''ua'')"
  using airline_match_upper_cased [of "exFilters ''SFO'' (noCriteria\<lparr>airlines := Some [''ua'']\<rparr>)"
      "noCriteria\<lparr>airlines := Some [''ua'']\<rparr>" "[''ua'']" "exFlight 250 0 ''UA''" "[exFlight 250 0 ''UA'']"]
  by (simp add: ex_defs equalIgnoringCase_def toUpperCase_def toUpperChar_def
      hasMatchingAirline_def claimed_pricePredicate_def claimed_stopsPredicate_def)

text \<open>
  The comparison is not case-insensitive on the side of the leg: a leg with the code
  \<open>ua\<close> equals the allowed code \<open>UA\<close> ignoring case, and the flight is dropped.
\<close>

theorem airline_match_counterexample:
  "equalIgnoringCase (airlineCode (exLeg ''ua'')) ''UA''
   \<and> legs (hd (slices (exFlight 250 0 ''ua''))) = [exLeg ''ua'']
   \<and> filterFlightsByAlertCriteria [exFlight 250 0 ''ua'']
        (exFilters ''SFO'' (noCriteria\<lparr>airlines := Some [''UA'']\<rparr>)) = []"
  by (simp add: ex_defs equalIgnoringCase_def toUpperCase_def toUpperChar_def
      filterFlightsByAlertCriteria_def keepFlight_def hasMatchingAirline_def truthy_num_def truthy_str_def)

subsection \<open>A price ceiling of zero\<close>

text \<open>
  C10. With a price ceiling of 0 both functions behave as with no ceiling: the Result
  Filter returns what it returns for the same bundle without a price (the flights that
  pass the airline and stops predicates, whatever their price), and the Filter Translator
  returns the same query, which has no price limit.
\<close>

theorem zero_price_is_no_ceiling:
  assumes "filters af = Some c" and "price c = Some 0"
  shows "filterFlightsByAlertCriteria fs af =
           filterFlightsByAlertCriteria fs (af\<lparr>filters := Some (c\<lparr>price := None\<rparr>)\<rparr>)
         \<and> filterFlightsByAlertCriteria fs af =
             filter (\<lambda>f. (airlines c = Some [] \<or> claimed_airlinePredicate (upperCased c) f)
                        \<and> claimed_stopsPredicate c f) fs
         \<and> convertAlertFiltersToFlightFilters rt af =
             convertAlertFiltersToFlightFilters rt (af\<lparr>filters := Some (c\<lparr>price := None\<rparr>)\<rparr>)
         \<and> (\<forall>q. convertAlertFiltersToFlightFilters rt af = Some q \<longrightarrow> priceLimit q = None)"
proof -
  have k: "keepFlight c = keepFlight (c\<lparr>price := None\<rparr>)"
    using assms(2) by (intro ext) (simp add: keepFlight_def truthy_num_def)
  have k2: "keepFlight c = (\<lambda>f. (airlines c = Some [] \<or> claimed_airlinePredicate (upperCased c) f)
                        \<and> claimed_stopsPredicate c f)"
    using assms(2) by (intro ext) (simp add: keepFlight_conj)
  have f1: "filterFlightsByAlertCriteria fs af =
           filterFlightsByAlertCriteria fs (af\<lparr>filters := Some (c\<lparr>price := None\<rparr>)\<rparr>)"
    using assms(1) k by (simp add: filterFlightsByAlertCriteria_def)
  have f2: "filterFlightsByAlertCriteria fs af =
             filter (\<lambda>f. (airlines c = Some [] \<or> claimed_airlinePredicate (upperCased c) f)
                        \<and> claimed_stopsPredicate c f) fs"
    using assms(1) k2 by (simp add: filterFlightsByAlertCriteria_def)
  let ?c' = "c\<lparr>price := None\<rparr>"
  let ?af' = "af\<lparr>filters := Some ?c'\<rparr>"
  have e: "effectiveDateFrom rt (Some ?c') = effectiveDateFrom rt (Some c)"
    by (simp add: effectiveDateFrom_def optField_simps)
  have x: "rangeExpired rt (Some ?c') = rangeExpired rt (Some c)"
    by (simp add: rangeExpired_def optField_simps)
  have s: "segmentsOf rt ?af' = segmentsOf rt af"
    using assms(1) by (simp add: segmentsOf_def optField_simps e)
  have b: "baseInput rt ?af' = baseInput rt af"
    using assms(1) by (simp add: baseInput_def s e optField_simps stopsOf_def seatTypeOf_def split: option.splits)
  have a: "withAirlines (Some ?c') i = withAirlines (Some c) i" for i
    by (simp add: withAirlines_def optField_simps)
  have p: "withPriceLimit (Some c) i = i" "withPriceLimit (Some ?c') i = i" for i
    using assms(2) by (simp_all add: withPriceLimit_def optField_simps)
  have c1: "convertAlertFiltersToFlightFilters rt af = convertAlertFiltersToFlightFilters rt ?af'"
    using assms(1) by (simp add: convertAlertFiltersToFlightFilters_def x b a p)
  have c2: "priceLimit q = None" if "convertAlertFiltersToFlightFilters rt af = Some q" for q
    using that assms(1)
    by (auto simp: convertAlertFiltersToFlightFilters_def p withAirlines_def baseInput_def
        split: if_splits option.splits)
  show ?thesis using f1 f2 c1 c2 by blast
qed

theorem zero_price_is_no_ceiling_witness:
  "filters (exFilters ''SFO'' (exCriteria\<lparr>price := Some 0\<rparr>)) = Some (exCriteria\<lparr>price := Some 0\<rparr>)
   \<and> price (exCriteria\<lparr>price := Some 0\<rparr>) = Some 0
   \<and> filterFlightsByAlertCriteria [exFlight 9999 0 ''UA''] (exFilters ''SFO'' (exCriteria\<lparr>price := Some 0\<rparr>))
        = filter (\<lambda>f. (airlines (exCriteria\<lparr>price := Some 0\<rparr>) = Some []
                      \<or> claimed_airlinePredicate (upperCased (exCriteria\<lparr>price := Some 0\<rparr>)) f)
                     \<and> claimed_stopsPredicate (exCriteria\<lparr>price := Some 0\<rparr>) f) [exFlight 9999 0 ''UA'']
   \<and> filterFlightsByAlertCriteria [exFlight 9999 0 ''UA''] (exFilters ''SFO'' (exCriteria\<lparr>price := Some 0\<rparr>))
        = [exFlight 9999 0 ''UA'']
   \<and> map_option priceLimit
        (convertAlertFiltersToFlightFilters exRuntime (exFilters ''SFO'' (exCriteria\<lparr>price := Some 0\<rparr>)))
        = Some None"
proof -
  have h1: "filters (exFilters ''SFO'' (exCriteria\<lparr>price := Some 0\<rparr>)) = Some (exCriteria\<lparr>price := Some 0\<rparr>)"
    by (simp add: exFilters_def)
  have h2: "price (exCriteria\<lparr>price := Some 0\<rparr>) = Some 0"
    by simp
  note t = zero_price_is_no_ceiling [OF h1 h2, of "[exFlight 9999 0 ''UA'']" exRuntime]
  have e1: "filterFlightsByAlertCriteria [exFlight 9999 0 ''UA''] (exFilters ''SFO'' (exCriteria\<lparr>price := Some 0\<rparr>))
        = [exFlight 9999 0 ''UA'']"
    by (simp add: ex_defs filterFlightsByAlertCriteria_def keepFlight_def truthy_num_def
        truthy_str_def hasValidStops_def maxStopsOf_def zero_enat_def)
  have e2: "map_option priceLimit
        (convertAlertFiltersToFlightFilters exRuntime (exFilters ''SFO'' (exCriteria\<lparr>price := Some 0\<rparr>)))
        = Some None"
    by (simp add: ex_defs conv_defs)
  from h1 h2 t e1 e2 show ?thesis by blast
qed

section \<open>Properties of the Batch Processor\<close>

lemma promiseAll_Inr:
  "promiseAll (map Inr xs) = Inr xs"
  by (induction xs) simp_all

lemma fetchFlightsForAlert_resolves:
  "fetchFlightsForAlert rt co a m =
     Inr (case fetchFlightsForAlert_try rt co a m of Inl e \<Rightarrow> None | Inr r \<Rightarrow> r)"
  by (simp add: fetchFlightsForAlert_def split: sum.splits)

lemma map_filter_successful:
  "List.map_filter (\<lambda>r. if successful r then r else None)
     (map (\<lambda>a. case fetchFlightsForAlert_try rt co a m of Inl e \<Rightarrow> None | Inr r \<Rightarrow> r) alerts)
   = concat (map (alertEntry rt co m) alerts)"
  by (induction alerts)
    (auto simp: List.map_filter_simps alertEntry_def successful_def split: sum.splits option.splits)

lemma fetchFlightDataForAlerts_entries:
  "fetchFlightDataForAlerts rt co alerts m = Inr (concat (map (alertEntry rt co m) alerts))"
proof -
  have m: "map (\<lambda>a. fetchFlightsForAlert rt co a m) alerts =
        map Inr (map (\<lambda>a. case fetchFlightsForAlert_try rt co a m of Inl e \<Rightarrow> None | Inr r \<Rightarrow> r) alerts)"
    by (simp add: fetchFlightsForAlert_resolves)
  have "promiseAll (map (\<lambda>a. fetchFlightsForAlert rt co a m) alerts) =
        Inr (map (\<lambda>a. case fetchFlightsForAlert_try rt co a m of Inl e \<Rightarrow> None | Inr r \<Rightarrow> r) alerts)"
    unfolding m by (rule promiseAll_Inr)
  then show ?thesis
    by (simp add: fetchFlightDataForAlerts_def map_filter_successful)
qed

lemma exQuery_convert:
  "convertAlertFiltersToFlightFilters exRuntime (alertFilters (exAlert i src exCriteria e)) = Some (exQuery src)"
  by (simp add: ex_defs conv_defs exQuery_def exRuntime_tomorrowStr exRuntime_past)

lemma fetchFlightsForAlert_try_found:
  assumes "convertAlertFiltersToFlightFilters rt (alertFilters a) = Some q"
    and "parseFlightFiltersInput co q = Inr v"
    and "searchFlights co v = Inr found"
  shows "fetchFlightsForAlert_try rt co a m =
           Inr (Some \<lparr>alert = a,
                      flights = filterFlightsByAlertCriteria (slice0 found (maxFlightsOrDefault m))
                                  (alertFilters a)\<rparr>)"
  using assms by (simp add: fetchFlightsForAlert_try_def)

text \<open>
  C4. When the translator gives a query, the validation accepts it and the search returns
  a list, the flights attached to the alert are the Result Filter applied to the first
  \<open>n\<close> results, in that order, when the cap given is \<open>n\<close>, and to the first 5 results
  when no cap is given; the batch of that alert alone returns that entry when a flight
  remains and nothing otherwise. So the cap comes first: the flights attached are among
  the first \<open>n\<close> results, whatever satisfies the criteria after them.
\<close>

theorem cap_before_filter:
  assumes "convertAlertFiltersToFlightFilters rt (alertFilters a) = Some q"
    and "parseFlightFiltersInput co q = Inr v"
    and "searchFlights co v = Inr found"
  shows "(\<forall>n. 0 \<le> n \<longrightarrow>
            fetchFlightsForAlert rt co a (Some n) =
              Inr (Some \<lparr>alert = a,
                         flights = filterFlightsByAlertCriteria (take (nat n) found) (alertFilters a)\<rparr>)
            \<and> fetchFlightDataForAlerts rt co [a] (Some n) =
                Inr (if filterFlightsByAlertCriteria (take (nat n) found) (alertFilters a) = [] then []
                     else [\<lparr>alert = a,
                            flights = filterFlightsByAlertCriteria (take (nat n) found) (alertFilters a)\<rparr>]))
         \<and> fetchFlightsForAlert rt co a None =
             Inr (Some \<lparr>alert = a,
                        flights = filterFlightsByAlertCriteria (take 5 found) (alertFilters a)\<rparr>)
         \<and> fetchFlightDataForAlerts rt co [a] None =
             Inr (if filterFlightsByAlertCriteria (take 5 found) (alertFilters a) = [] then []
                  else [\<lparr>alert = a,
                         flights = filterFlightsByAlertCriteria (take 5 found) (alertFilters a)\<rparr>])"
proof -
  note t = fetchFlightsForAlert_try_found [OF assms]
  have some: "fetchFlightsForAlert_try rt co a (Some n) =
      Inr (Some \<lparr>alert = a,
                 flights = filterFlightsByAlertCriteria (take (nat n) found) (alertFilters a)\<rparr>)"
    if "0 \<le> n" for n
    using that by (simp add: t slice0_def maxFlightsOrDefault_def)
  have none: "fetchFlightsForAlert_try rt co a None =
      Inr (Some \<lparr>alert = a,
                 flights = filterFlightsByAlertCriteria (take 5 found) (alertFilters a)\<rparr>)"
    by (simp add: t slice0_def maxFlightsOrDefault_def)
  show ?thesis
    using some none
    by (simp add: fetchFlightsForAlert_resolves fetchFlightDataForAlerts_entries alertEntry_def)
qed

text \<open>
  Six results, of which the second and the sixth satisfy the criteria. With no cap given
  the second is attached and the sixth is not; with a cap of 1 nothing is attached and the
  alert is left out of the batch; with a cap of 6 both are attached. Filtering first and
  capping at 5 afterwards would attach both.
\<close>

theorem cap_before_filter_witness:
  "convertAlertFiltersToFlightFilters exRuntime (alertFilters (exAlert ''a1'' ''SFO'' exCriteria None))
     = Some (exQuery ''SFO'')
   \<and> parseFlightFiltersInput (exCollaborators exFound) (exQuery ''SFO'') = Inr (exQuery ''SFO'')
   \<and> searchFlights (exCollaborators exFound) (exQuery ''SFO'') = Inr exFound
   \<and> fetchFlightsForAlert exRuntime (exCollaborators exFound) (exAlert ''a1'' ''SFO'' exCriteria None) None
       = Inr (Some \<lparr>alert = exAlert ''a1'' ''SFO'' exCriteria None, flights = [exFlight 250 0 ''UA'']\<rparr>)
   \<and> fetchFlightsForAlert exRuntime (exCollaborators exFound) (exAlert ''a1'' ''SFO'' exCriteria None) (Some 1)
       = Inr (Some \<lparr>alert = exAlert ''a1'' ''SFO'' exCriteria None, flights = []\<rparr>)
   \<and> fetchFlightDataForAlerts exRuntime (exCollaborators exFound) [exAlert ''a1'' ''SFO'' exCriteria None] (Some 1)
       = Inr []
   \<and> fetchFlightsForAlert exRuntime (exCollaborators exFound) (exAlert ''a1'' ''SFO'' exCriteria None) (Some 6)
       = Inr (Some \<lparr>alert = exAlert ''a1'' ''SFO'' exCriteria None,
                    flights = [exFlight 250 0 ''UA'', exFlight 240 0 ''UA'']\<rparr>)
   \<and> exFound ! 5 = exFlight 240 0 ''UA''
   \<and> take 5 (filterFlightsByAlertCriteria exFound (alertFilters (exAlert ''a1'' ''SFO'' exCriteria None)))
       = [exFlight 250 0 ''UA'', exFlight 240 0 ''UA'']"
proof -
  let ?a = "exAlert ''a1'' ''SFO'' exCriteria None"
  have h1: "convertAlertFiltersToFlightFilters exRuntime (alertFilters ?a) = Some (exQuery ''SFO'')"
    by (rule exQuery_convert)
  have h2: "parseFlightFiltersInput (exCollaborators exFound) (exQuery ''SFO'') = Inr (exQuery ''SFO'')"
    by (simp add: exCollaborators_def)
  have h3: "searchFlights (exCollaborators exFound) (exQuery ''SFO'') = Inr exFound"
    by (simp add: exCollaborators_def exQuery_def)
  note t = cap_before_filter [OF h1 h2 h3]
  have e5: "filterFlightsByAlertCriteria (take 5 exFound) (alertFilters ?a) = [exFlight 250 0 ''UA'']"
    by (simp add: exFound_def ex_defs filter_defs)
  have e1: "filterFlightsByAlertCriteria (take (nat 1) exFound) (alertFilters ?a) = []"
    by (simp add: exFound_def ex_defs filter_defs)
  have e6: "filterFlightsByAlertCriteria (take (nat 6) exFound) (alertFilters ?a)
      = [exFlight 250 0 ''UA'', exFlight 240 0 ''UA'']"
    by (simp add: exFound_def ex_defs filter_defs)
  have k: "exFound ! 5 = exFlight 240 0 ''UA''
      \<and> take 5 (filterFlightsByAlertCriteria exFound (alertFilters ?a))
          = [exFlight 250 0 ''UA'', exFlight 240 0 ''UA'']"
    by (simp add: exFound_def ex_defs filter_defs)
  from t have t5: "fetchFlightsForAlert exRuntime (exCollaborators exFound) ?a None
      = Inr (Some \<lparr>alert = ?a, flights = filterFlightsByAlertCriteria (take 5 exFound) (alertFilters ?a)\<rparr>)"
    by blast
  from t have t1: "fetchFlightsForAlert exRuntime (exCollaborators exFound) ?a (Some 1)
      = Inr (Some \<lparr>alert = ?a,
                   flights = filterFlightsByAlertCriteria (take (nat 1) exFound) (alertFilters ?a)\<rparr>)
      \<and> fetchFlightDataForAlerts exRuntime (exCollaborators exFound) [?a] (Some 1)
        = Inr (if filterFlightsByAlertCriteria (take (nat 1) exFound) (alertFilters ?a) = [] then []
               else [\<lparr>alert = ?a,
                      flights = filterFlightsByAlertCriteria (take (nat 1) exFound) (alertFilters ?a)\<rparr>])"
    by simp
  from t have t6: "fetchFlightsForAlert exRuntime (exCollaborators exFound) ?a (Some 6)
      = Inr (Some \<lparr>alert = ?a,
                   flights = filterFlightsByAlertCriteria (take (nat 6) exFound) (alertFilters ?a)\<rparr>)"
    by simp
  from h1 h2 h3 t5 t1 t6 e5 e1 e6 k show ?thesis by simp
qed

text \<open>
  C5. \<^verbatim>\<open>fetchFlightDataForAlerts\<close> always returns a list, never an exception: the
  concatenation, in the order of the alerts, of what each alert contributes, which is at
  most one entry. An alert whose processing threw (in the validation or in the search)
  contributes nothing and the result is the one of the batch without it; an alert left
  with no flight contributes nothing; an alert left with a flight contributes its entry.
\<close>

theorem batch_fault_isolation:
  "fetchFlightDataForAlerts rt co alerts m = Inr (concat (map (alertEntry rt co m) alerts))
   \<and> (\<forall>a \<in> set alerts. length (alertEntry rt co m a) \<le> 1)
   \<and> (\<forall>a e. fetchFlightsForAlert_try rt co a m = Inl e \<longrightarrow>
         alertEntry rt co m a = []
         \<and> fetchFlightDataForAlerts rt co (xs @ a # ys) m =
             Inr (concat (map (alertEntry rt co m) xs) @ concat (map (alertEntry rt co m) ys)))
   \<and> (\<forall>a r. fetchFlightsForAlert_try rt co a m = Inr (Some r) \<and> flights r = [] \<longrightarrow>
         alertEntry rt co m a = [])
   \<and> (\<forall>a r. fetchFlightsForAlert_try rt co a m = Inr (Some r) \<and> flights r \<noteq> [] \<longrightarrow>
         alertEntry rt co m a = [r])"
  by (auto simp: fetchFlightDataForAlerts_entries alertEntry_def split: sum.splits option.splits)

theorem batch_fault_isolation_witness:
  "fetchFlightsForAlert_try exRuntime (exCollaborators exFound) (exAlert ''a2'' ''XXX'' exCriteria None) None
     = Inl (SearchFailure ''timeout'')
   \<and> fetchFlightsForAlert_try exRuntime (exCollaborators exFound)
        (exAlert ''a4'' ''SEA'' (exCriteria\<lparr>price := Some 100\<rparr>) None) None
     = Inr (Some \<lparr>alert = exAlert ''a4'' ''SEA'' (exCriteria\<lparr>price := Some 100\<rparr>) None, flights = []\<rparr>)
   \<and> fetchFlightDataForAlerts exRuntime (exCollaborators exFound)
        [exAlert ''a1'' ''SFO'' exCriteria None, exAlert ''a2'' ''XXX'' exCriteria None,
         exAlert ''a3'' ''LAX'' exCriteria None,
         exAlert ''a4'' ''SEA'' (exCriteria\<lparr>price := Some 100\<rparr>) None] None
      = Inr [\<lparr>alert = exAlert ''a1'' ''SFO'' exCriteria None, flights = [exFlight 250 0 ''UA'']\<rparr>,
             \<lparr>alert = exAlert ''a3'' ''LAX'' exCriteria None, flights = [exFlight 250 0 ''UA'']\<rparr>]"
proof -
  let ?co = "exCollaborators exFound"
  let ?a4 = "exAlert ''a4'' ''SEA'' (exCriteria\<lparr>price := Some 100\<rparr>) None"
  have try_ok: "fetchFlightsForAlert_try exRuntime ?co (exAlert i src exCriteria None) None =
      Inr (Some \<lparr>alert = exAlert i src exCriteria None, flights = [exFlight 250 0 ''UA'']\<rparr>)"
    if "src \<noteq> ''XXX''" for i src
  proof -
    have "filterFlightsByAlertCriteria (slice0 exFound 5) (alertFilters (exAlert i src exCriteria None))
        = [exFlight 250 0 ''UA'']"
      by (simp add: slice0_def exFound_def ex_defs filter_defs)
    then show ?thesis
      using that
      by (simp add: fetchFlightsForAlert_try_def exQuery_convert exCollaborators_def exQuery_def
          maxFlightsOrDefault_def)
  qed
  have try_bad: "fetchFlightsForAlert_try exRuntime ?co (exAlert ''a2'' ''XXX'' exCriteria None) None
      = Inl (SearchFailure ''timeout'')"
    by (simp add: fetchFlightsForAlert_try_def exQuery_convert exCollaborators_def exQuery_def)
  have q4: "convertAlertFiltersToFlightFilters exRuntime (alertFilters ?a4)
      = Some ((exQuery ''SEA'')\<lparr>priceLimit := Some \<lparr>amount = 100, limitCurrency = USD\<rparr>\<rparr>)"
    by (simp add: ex_defs conv_defs exQuery_def exRuntime_tomorrowStr exRuntime_past)
  have f4: "filterFlightsByAlertCriteria (slice0 exFound 5) (alertFilters ?a4) = []"
    by (simp add: slice0_def exFound_def ex_defs filter_defs)
  have try_none: "fetchFlightsForAlert_try exRuntime ?co ?a4 None = Inr (Some \<lparr>alert = ?a4, flights = []\<rparr>)"
    using f4 by (simp add: fetchFlightsForAlert_try_def q4 exCollaborators_def exQuery_def
        maxFlightsOrDefault_def)
  have e1: "alertEntry exRuntime ?co None (exAlert ''a1'' ''SFO'' exCriteria None) =
      [\<lparr>alert = exAlert ''a1'' ''SFO'' exCriteria None, flights = [exFlight 250 0 ''UA'']\<rparr>]"
    by (simp add: alertEntry_def try_ok)
  have e3: "alertEntry exRuntime ?co None (exAlert ''a3'' ''LAX'' exCriteria None) =
      [\<lparr>alert = exAlert ''a3'' ''LAX'' exCriteria None, flights = [exFlight 250 0 ''UA'']\<rparr>]"
    by (simp add: alertEntry_def try_ok)
  have e2: "alertEntry exRuntime ?co None (exAlert ''a2'' ''XXX'' exCriteria None) = []"
    by (simp add: alertEntry_def try_bad)
  have e4: "alertEntry exRuntime ?co None ?a4 = []"
    by (simp add: alertEntry_def try_none)
  note t = batch_fault_isolation [of exRuntime ?co
      "[exAlert ''a1'' ''SFO'' exCriteria None, exAlert ''a2'' ''XXX'' exCriteria None,
        exAlert ''a3'' ''LAX'' exCriteria None, ?a4]" None "[]" "[]"]
  from t have "fetchFlightDataForAlerts exRuntime ?co
        [exAlert ''a1'' ''SFO'' exCriteria None, exAlert ''a2'' ''XXX'' exCriteria None,
         exAlert ''a3'' ''LAX'' exCriteria None, ?a4] None
      = Inr (concat (map (alertEntry exRuntime ?co None)
          [exAlert ''a1'' ''SFO'' exCriteria None, exAlert ''a2'' ''XXX'' exCriteria None,
           exAlert ''a3'' ''LAX'' exCriteria None, ?a4]))"
    by blast
  then show ?thesis
    using try_bad try_none e1 e2 e3 e4 by simp
qed

section \<open>Properties of the Filter Translator\<close>

lemma newDate_empty: "newDate rt [] = None"
  by (simp add: newDate_def)

lemma beforeToday_empty: "\<not> beforeToday rt []"
  by (simp add: beforeToday_def newDate_empty setHours0_def date_lt_def)

lemma rangeExpired_iff:
  "rangeExpired rt c \<longleftrightarrow> (\<exists>d. optField dateTo c = Some d \<and> beforeToday rt d)"
  using beforeToday_empty by (auto simp: rangeExpired_def split: option.splits)

lemma convert_effective:
  assumes "convertAlertFiltersToFlightFilters rt af = Some q"
  shows "rangeFrom (dateRange q) = effectiveDateFrom rt (filters af)"
    and "map departureDate (segments q) = [effectiveDateFrom rt (filters af)]"
  using assms
  by (auto simp: convertAlertFiltersToFlightFilters_def withPriceLimit_def withAirlines_def
      baseInput_def segmentsOf_def split: if_splits option.splits)

text \<open>
  What the translator computes, for every runtime: null exactly when \<^verbatim>\<open>dateTo\<close> is
  there and the check \<^verbatim>\<open>endDate < today\<close> holds of it; otherwise a query that starts
  at \<^verbatim>\<open>tomorrowStr\<close> when \<^verbatim>\<open>dateFrom\<close> is absent, empty or passes that check, and
  at \<^verbatim>\<open>dateFrom\<close> when it does not.
\<close>

lemma convert_null_iff:
  "convertAlertFiltersToFlightFilters rt af = None \<longleftrightarrow>
     (\<exists>d. optField dateTo (filters af) = Some d \<and> beforeToday rt d)"
  by (simp add: convertAlertFiltersToFlightFilters_def rangeExpired_iff)

lemma convert_start:
  assumes "convertAlertFiltersToFlightFilters rt af = Some q"
  shows "map departureDate (segments q) = [rangeFrom (dateRange q)]"
    and "optField dateFrom (filters af) = None \<Longrightarrow> rangeFrom (dateRange q) = tomorrowStr rt"
    and "optField dateFrom (filters af) = Some d \<Longrightarrow> beforeToday rt d \<Longrightarrow>
           rangeFrom (dateRange q) = tomorrowStr rt"
    and "optField dateFrom (filters af) = Some d \<Longrightarrow> d \<noteq> [] \<Longrightarrow> \<not> beforeToday rt d \<Longrightarrow>
           rangeFrom (dateRange q) = d"
  using convert_effective [OF assms] by (simp_all add: effectiveDateFrom_def)

subsection \<open>A runtime in UTC\<close>

text \<open>
  In a runtime whose local zone is UTC the check \<^verbatim>\<open>endDate < today\<close> compares the
  day of the date with the day of now, and \<^verbatim>\<open>tomorrowStr\<close> is the date of the day
  after the day of now.
\<close>

lemma utc_today:
  assumes "\<And>t u. localTZA rt t u = 0"
  shows "today rt = Some (now rt div msPerDay * msPerDay)"
    and "tomorrow rt = Some ((now rt div msPerDay + 1) * msPerDay)"
    and "tomorrowStr rt = toISODate ((now rt div msPerDay + 1) * msPerDay)"
proof -
  show t: "today rt = Some (now rt div msPerDay * msPerDay)"
    by (simp add: today_def setHours0_def LocalTime_def UTC_def assms minus_mod_eq_div_mult)
  show t': "tomorrow rt = Some ((now rt div msPerDay + 1) * msPerDay)"
    by (simp add: tomorrow_def t LocalTime_def UTC_def assms algebra_simps)
  show "tomorrowStr rt = toISODate ((now rt div msPerDay + 1) * msPerDay)"
    by (simp add: tomorrowStr_def t')
qed

lemma utc_beforeToday:
  assumes "\<And>t u. localTZA rt t u = 0"
  shows "beforeToday rt d \<longleftrightarrow> (\<exists>t. newDate rt d = Some t \<and> t div msPerDay < now rt div msPerDay)"
proof (cases "newDate rt d")
  case None
  then show ?thesis by (simp add: beforeToday_def setHours0_def date_lt_def)
next
  case (Some t)
  have "setHours0 rt (Some t) = Some (t div msPerDay * msPerDay)"
    by (simp add: setHours0_def LocalTime_def UTC_def assms minus_mod_eq_div_mult)
  then show ?thesis
    using Some by (simp add: beforeToday_def date_lt_def utc_today(1) [OF assms] msPerDay_def)
qed

subsection \<open>A runtime in another zone\<close>

lemma laRuntime_dates:
  "localDate laRuntime = ''2025-06-04''"
  "tomorrowStr laRuntime = ''2025-06-05''"
  "beforeToday laRuntime ''2025-06-04''"
  by code_simp+

lemma tokyoRuntime_dates:
  "localDate tokyoRuntime = ''2025-06-04''"
  "tomorrowStr tokyoRuntime = ''2025-06-04''"
  by code_simp+

text \<open>
  C1. The days the translator compares are not the days of one zone: a plain date is
  read as midnight in UTC and then taken to the start of its local day, and tomorrow's
  date string is the date in UTC of the next local midnight. In Los Angeles at noon of
  4 June 2025 the translator returns null for a \<^verbatim>\<open>dateTo\<close> of 4 June 2025, which is
  today and not before today, and it replaces a \<^verbatim>\<open>dateFrom\<close> of 4 June 2025 by
  5 June 2025. In Tokyo at noon of 4 June 2025 the query for an absent \<^verbatim>\<open>dateFrom\<close>
  starts on 4 June 2025, which is today and not tomorrow.
\<close>

theorem translator_local_day_defect:
  "localDate laRuntime = ''2025-06-04''
   \<and> convertAlertFiltersToFlightFilters laRuntime
        (exFilters ''SFO'' (noCriteria\<lparr>dateTo := Some ''2025-06-04''\<rparr>)) = None
   \<and> map_option (\<lambda>q. rangeFrom (dateRange q))
        (convertAlertFiltersToFlightFilters laRuntime
           (exFilters ''SFO'' (noCriteria\<lparr>dateFrom := Some ''2025-06-04''\<rparr>))) = Some ''2025-06-05''
   \<and> localDate tokyoRuntime = ''2025-06-04''
   \<and> map_option (\<lambda>q. rangeFrom (dateRange q))
        (convertAlertFiltersToFlightFilters tokyoRuntime (exFilters ''SFO'' noCriteria)) = Some ''2025-06-04''"
  by (simp add: laRuntime_dates tokyoRuntime_dates ex_defs conv_defs)

text \<open>
  On the day the clocks go back in New York, 2 November 2025, the local day is 25 hours
  long: today starts at 04:00 UTC and tomorrow at 05:00 UTC of the next day. A
  \<^verbatim>\<open>dateTo\<close> half an hour after the start of today is not before today.
\<close>

lemma nyRuntime_dates:
  "today nyRuntime = Some 1762056000000"
  "tomorrow nyRuntime = Some 1762146000000"
  "tomorrowStr nyRuntime = ''2025-11-03''"
  "\<not> beforeToday nyRuntime ''2025-11-02T04:30:00Z''"
  by code_simp+

lemma nyRuntime_not_expired:
  "convertAlertFiltersToFlightFilters nyRuntime
     (exFilters ''SFO'' (noCriteria\<lparr>dateTo := Some ''2025-11-02T04:30:00Z''\<rparr>)) \<noteq> None"
  by (simp add: convert_null_iff nyRuntime_dates ex_defs optField_def)

section \<open>Properties of the Alert Lifecycle Manager\<close>

text \<open>The end dates of the example alerts, read by the example runtime.\<close>

lemma exRuntime_newDate:
  "newDate exRuntime ''2025-06-01'' = Some 1748736000000"
  "newDate exRuntime ''2025-06-05T12:00:00.000Z'' = Some 1749124800000"
  "newDate exRuntime ''2025-06-05T12:00:00.001Z'' = Some 1749124800001"
  "now exRuntime = 1749124800000"
  by code_simp+

lemma expired_branch:
  "(truthy_str (alertEnd a)
     \<and> date_le (case alertEnd a of None \<Rightarrow> None | Some s \<Rightarrow> newDate rt s) (Some (now rt)))
   = expiredAt rt a"
  by (auto simp: expiredAt_def truthy_str_def date_le_def newDate_def split: option.splits)

lemma partitionLoop_filter:
  "partitionLoop rt alerts act ex =
     (act @ filter (\<lambda>a. \<not> expiredAt rt a) alerts, ex @ filter (expiredAt rt) alerts)"
proof (induction alerts arbitrary: act ex)
  case Nil
  then show ?case by simp
next
  case (Cons a rest)
  show ?case
  proof (cases "expiredAt rt a")
    case True
    then have "truthy_str (alertEnd a)"
      and "date_le (case alertEnd a of None \<Rightarrow> None | Some s \<Rightarrow> newDate rt s) (Some (now rt))"
      using expired_branch [of a rt] by auto
    then show ?thesis using True Cons.IH by simp
  next
    case False
    then have "\<not> (truthy_str (alertEnd a)
        \<and> date_le (case alertEnd a of None \<Rightarrow> None | Some s \<Rightarrow> newDate rt s) (Some (now rt)))"
      using expired_branch [of a rt] by simp
    then show ?thesis using False Cons.IH by auto
  qed
qed

text \<open>
  C3, as the code has it. The expiry partition places exactly the alerts whose
  \<^verbatim>\<open>alertEnd\<close> is a date at or before now, so also those whose end equals now, into the
  expired group, and every other alert, so every alert with no \<^verbatim>\<open>alertEnd\<close> or with an
  end after now, into the active group, each group in the order of the input.
\<close>

theorem partition_by_expiry:
  "partitionByExpiry rt alerts = (filter (\<lambda>a. \<not> expiredAt rt a) alerts, filter (expiredAt rt) alerts)
   \<and> fst (filterAndUpdateExpiredAlerts rt store alerts) = filter (\<lambda>a. \<not> expiredAt rt a) alerts
   \<and> (expiredAt rt a \<longleftrightarrow> (\<exists>s t. alertEnd a = Some s \<and> newDate rt s = Some t \<and> t \<le> now rt))
   \<and> (a \<in> set (snd (partitionByExpiry rt alerts)) \<longleftrightarrow> a \<in> set alerts \<and> expiredAt rt a)
   \<and> (a \<in> set (fst (partitionByExpiry rt alerts)) \<longleftrightarrow> a \<in> set alerts \<and> \<not> expiredAt rt a)"
proof -
  have p: "partitionByExpiry rt alerts =
      (filter (\<lambda>a. \<not> expiredAt rt a) alerts, filter (expiredAt rt) alerts)"
    by (simp add: partitionByExpiry_def partitionLoop_filter)
  have e: "expiredAt rt a \<longleftrightarrow> (\<exists>s t. alertEnd a = Some s \<and> newDate rt s = Some t \<and> t \<le> now rt)"
    by (auto simp: expiredAt_def split: option.splits)
  show ?thesis
    using e by (auto simp: p filterAndUpdateExpiredAlerts_def)
qed

theorem partition_by_expiry_witness:
  "partitionByExpiry exRuntime
     [exAlert ''a1'' ''SFO'' exCriteria None,
      exAlert ''a2'' ''SFO'' exCriteria (Some ''2025-06-01''),
      exAlert ''a3'' ''SFO'' exCriteria (Some ''2025-06-05T12:00:00.000Z''),
      exAlert ''a4'' ''SFO'' exCriteria (Some ''2025-06-05T12:00:00.001Z'')]
   = ([exAlert ''a1'' ''SFO'' exCriteria None,
       exAlert ''a4'' ''SFO'' exCriteria (Some ''2025-06-05T12:00:00.001Z'')],
      [exAlert ''a2'' ''SFO'' exCriteria (Some ''2025-06-01''),
       exAlert ''a3'' ''SFO'' exCriteria (Some ''2025-06-05T12:00:00.000Z'')])"
proof -
  have e: "\<not> expiredAt exRuntime (exAlert ''a1'' ''SFO'' exCriteria None)"
    "expiredAt exRuntime (exAlert ''a2'' ''SFO'' exCriteria (Some ''2025-06-01''))"
    "expiredAt exRuntime (exAlert ''a3'' ''SFO'' exCriteria (Some ''2025-06-05T12:00:00.000Z''))"
    "\<not> expiredAt exRuntime (exAlert ''a4'' ''SFO'' exCriteria (Some ''2025-06-05T12:00:00.001Z''))"
    by (simp_all add: expiredAt_def exAlert_def exRuntime_newDate date_le_def)
  show ?thesis
    using partition_by_expiry [of exRuntime
        "[exAlert ''a1'' ''SFO'' exCriteria None,
          exAlert ''a2'' ''SFO'' exCriteria (Some ''2025-06-01''),
          exAlert ''a3'' ''SFO'' exCriteria (Some ''2025-06-05T12:00:00.000Z''),
          exAlert ''a4'' ''SFO'' exCriteria (Some ''2025-06-05T12:00:00.001Z'')]"] e
    by simp
qed

text \<open>An alert whose end equals now is placed in the expired group, not the active one.\<close>

theorem expiry_at_now_counterexample:
  "newDate exRuntime ''2025-06-05T12:00:00.000Z'' = Some (now exRuntime)
   \<and> partitionByExpiry exRuntime [exAlert ''a3'' ''SFO'' exCriteria (Some ''2025-06-05T12:00:00.000Z'')]
       = ([], [exAlert ''a3'' ''SFO'' exCriteria (Some ''2025-06-05T12:00:00.000Z'')])"
  by (simp add: partitionByExpiry_def exAlert_def exRuntime_newDate date_le_def truthy_str_def)

lemma expiryUpdates_completed:
  "(alertId, u) \<in> set (expiryUpdates expired) \<Longrightarrow> updStatus u = Some completed"
  by (auto simp: expiryUpdates_def)

lemma updateAlert_keeps_completed:
  assumes "updStatus u = Some completed" and "completedIn store i"
  shows "completedIn (snd (updateAlert store j u)) i"
  using assms
  by (auto simp: completedIn_def updateAlert_def applyUpdates_def split: option.splits)

lemma issueUpdates_keeps_completed:
  assumes "\<forall>(j, u) \<in> set ups. updStatus u = Some completed" and "completedIn store i"
  shows "completedIn (issueUpdates ups store) i"
  using assms
proof (induction ups arbitrary: store)
  case Nil
  then show ?case by (simp add: issueUpdates_def)
next
  case (Cons p ups)
  obtain j u where p: "p = (j, u)" by (cases p)
  have "completedIn (snd (updateAlert store j u)) i"
    using Cons.prems p by (intro updateAlert_keeps_completed) auto
  then have "completedIn (issueUpdates ups (snd (updateAlert store j u))) i"
    using Cons.IH Cons.prems by simp
  then show ?case
    by (simp add: issueUpdates_def p)
qed

lemma lifecycleStep_keeps_completed:
  "completedIn store i \<Longrightarrow> completedIn (lifecycleStep op store) i"
proof (cases op)
  case (FilterAndUpdateExpired rt alerts)
  assume c: "completedIn store i"
  obtain act ex where pe: "partitionByExpiry rt alerts = (act, ex)"
    by (cases "partitionByExpiry rt alerts")
  have "completedIn (issueUpdates (expiryUpdates ex) store) i"
    using c by (intro issueUpdates_keeps_completed) (auto dest: expiryUpdates_completed)
  then show ?thesis
    using c FilterAndUpdateExpired pe by (simp add: filterAndUpdateExpiredAlerts_def)
next
  case (FilterUnprocessed processed alerts)
  assume "completedIn store i"
  then show ?thesis using FilterUnprocessed by simp
qed

lemma runLifecycle_keeps_completed:
  "completedIn store i \<Longrightarrow> completedIn (runLifecycle ops store) i"
  unfolding runLifecycle_def
  by (induction ops arbitrary: store) (simp_all add: lifecycleStep_keeps_completed)

text \<open>
  C9. Every update the manager issues sets the status to completed, never to active; the
  store after \<^verbatim>\<open>filterAndUpdateExpiredAlerts\<close> is the store with those updates issued
  for the expired group; and an alert that is completed in the store is completed after
  every sequence of operations of the manager.
\<close>

theorem completed_never_reverts:
  "(\<forall>(alertId, u) \<in> set (expiryUpdates expired). updStatus u = Some completed \<and> updStatus u \<noteq> Some active)
   \<and> snd (filterAndUpdateExpiredAlerts rt store alerts)
       = (if snd (partitionByExpiry rt alerts) = [] then store
          else issueUpdates (expiryUpdates (snd (partitionByExpiry rt alerts))) store)
   \<and> (\<forall>row. store i = Some row \<and> status row = completed \<longrightarrow>
         (\<exists>row'. runLifecycle ops store i = Some row' \<and> status row' = completed))"
proof -
  have a: "\<forall>(alertId, u) \<in> set (expiryUpdates expired).
      updStatus u = Some completed \<and> updStatus u \<noteq> Some active"
    by (auto simp: expiryUpdates_def)
  have b: "snd (filterAndUpdateExpiredAlerts rt store alerts)
       = (if snd (partitionByExpiry rt alerts) = [] then store
          else issueUpdates (expiryUpdates (snd (partitionByExpiry rt alerts))) store)"
    by (simp add: filterAndUpdateExpiredAlerts_def split: prod.splits)
  have c: "\<exists>row'. runLifecycle ops store i = Some row' \<and> status row' = completed"
    if "store i = Some row" "status row = completed" for row
  proof -
    have "completedIn store i" using that by (simp add: completedIn_def)
    then have "completedIn (runLifecycle ops store) i" by (rule runLifecycle_keeps_completed)
    then show ?thesis by (auto simp: completedIn_def split: option.splits)
  qed
  show ?thesis using a b c by blast
qed

theorem completed_never_reverts_witness:
  "exStore ''a1'' = Some ((exAlert ''a1'' ''SFO'' exCriteria (Some ''2025-06-01''))\<lparr>status := completed\<rparr>)
   \<and> status ((exAlert ''a1'' ''SFO'' exCriteria (Some ''2025-06-01''))\<lparr>status := completed\<rparr>) = completed
   \<and> map_option status
        (runLifecycle
          [FilterAndUpdateExpired exRuntime
             [exAlert ''a1'' ''SFO'' exCriteria (Some ''2025-06-01''),
              exAlert ''a2'' ''SFO'' exCriteria (Some ''2025-06-01'')],
           FilterUnprocessed (\<lambda>i h. False) [],
           FilterAndUpdateExpired exRuntime [exAlert ''a1'' ''SFO'' exCriteria (Some ''2025-06-01'')]]
          exStore ''a1'') = Some completed
   \<and> map_option status
        (runLifecycle
          [FilterAndUpdateExpired exRuntime
             [exAlert ''a1'' ''SFO'' exCriteria (Some ''2025-06-01''),
              exAlert ''a2'' ''SFO'' exCriteria (Some ''2025-06-01'')]]
          exStore ''a2'') = Some completed
   \<and> map snd (expiryUpdates [exAlert ''a2'' ''SFO'' exCriteria (Some ''2025-06-01'')])
       = [\<lparr>updStatus = Some completed, updFilters = None, updAlertEnd = None\<rparr>]"
proof -
  let ?ops = "[FilterAndUpdateExpired exRuntime
             [exAlert ''a1'' ''SFO'' exCriteria (Some ''2025-06-01''),
              exAlert ''a2'' ''SFO'' exCriteria (Some ''2025-06-01'')],
           FilterUnprocessed (\<lambda>i h. False) [],
           FilterAndUpdateExpired exRuntime [exAlert ''a1'' ''SFO'' exCriteria (Some ''2025-06-01'')]]"
  have h1: "exStore ''a1'' = Some ((exAlert ''a1'' ''SFO'' exCriteria (Some ''2025-06-01''))\<lparr>status := completed\<rparr>)"
    by (simp add: exStore_def)
  have h2: "status ((exAlert ''a1'' ''SFO'' exCriteria (Some ''2025-06-01''))\<lparr>status := completed\<rparr>) = completed"
    by simp
  from completed_never_reverts [of "[]" exRuntime exStore "[]" "''a1''" ?ops] h1 h2
  have "\<exists>row'. runLifecycle ?ops exStore ''a1'' = Some row' \<and> status row' = completed"
    by blast
  then have c: "map_option status (runLifecycle ?ops exStore ''a1'') = Some completed"
    by auto
  have e: "map_option status
        (runLifecycle
          [FilterAndUpdateExpired exRuntime
             [exAlert ''a1'' ''SFO'' exCriteria (Some ''2025-06-01''),
              exAlert ''a2'' ''SFO'' exCriteria (Some ''2025-06-01'')]]
          exStore ''a2'') = Some completed"
    by (simp add: runLifecycle_def filterAndUpdateExpiredAlerts_def partitionByExpiry_def
        exAlert_def exRuntime_newDate date_le_def truthy_str_def expiryUpdates_def issueUpdates_def updateAlert_def
        applyUpdates_def exStore_def)
  have u: "map snd (expiryUpdates [exAlert ''a2'' ''SFO'' exCriteria (Some ''2025-06-01'')])
       = [\<lparr>updStatus = Some completed, updFilters = None, updAlertEnd = None\<rparr>]"
    by (simp add: expiryUpdates_def)
  from h1 h2 c e u show ?thesis by blast
qed

section \<open>Properties of the Notification Content Pipeline\<close>

subsection \<open>Stripping the markup of a rendered node\<close>

lemmas markup_defs = wrapWithLayout_def DOCTYPE_def EmailLayout_def css_def renderAttr_def
  escapeText_def escapeChar_def voidElements_def

lemma layout_text_nonempty: "stripHtml (wrapWithLayout pv ch) \<noteq> []"
  by (simp add: markup_defs stripHtml_def)

lemma layout_html_nonempty: "wrapWithLayout pv ch \<noteq> []"
  by (simp add: wrapWithLayout_def DOCTYPE_def)

lemma escapeText_no_angle: "CHR ''<'' \<notin> set (escapeText s)" "CHR ''>'' \<notin> set (escapeText s)"
  by (induction s) (auto simp: escapeText_def escapeChar_def)

lemma stripFrom_plain: "CHR ''<'' \<notin> set s \<Longrightarrow> stripFrom False (s @ r) = s @ stripFrom False r"
  by (induction s) auto

lemma stripFrom_inside: "CHR ''>'' \<notin> set s \<Longrightarrow> stripFrom True (s @ r) = stripFrom True r"
  by (induction s) auto

lemma renderAttr_no_gt: "CHR ''>'' \<notin> set (fst a) \<Longrightarrow> CHR ''>'' \<notin> set (renderAttr a)"
  by (simp add: renderAttr_def escapeText_no_angle)

lemma renderAttrs_no_gt:
  "list_all (\<lambda>a. CHR ''>'' \<notin> set (fst a)) attrs \<Longrightarrow> CHR ''>'' \<notin> set (concat (map renderAttr attrs))"
  by (induction attrs) (auto simp: renderAttr_no_gt)

lemma strip_open_tag:
  assumes "CHR ''>'' \<notin> set tag" and "list_all (\<lambda>a. CHR ''>'' \<notin> set (fst a)) attrs"
  shows "stripFrom False (''<'' @ tag @ concat (map renderAttr attrs) @ ''>'' @ r) = stripFrom False r"
proof -
  have "CHR ''>'' \<notin> set (tag @ concat (map renderAttr attrs))"
    using assms renderAttrs_no_gt by auto
  then have "stripFrom True ((tag @ concat (map renderAttr attrs)) @ ''>'' @ r) = stripFrom True (''>'' @ r)"
    by (rule stripFrom_inside)
  then show ?thesis by simp
qed

lemma strip_void_tag:
  assumes "CHR ''>'' \<notin> set tag" and "list_all (\<lambda>a. CHR ''>'' \<notin> set (fst a)) attrs"
  shows "stripFrom False (''<'' @ tag @ concat (map renderAttr attrs) @ ''/>'' @ r) = stripFrom False r"
proof -
  have "CHR ''>'' \<notin> set (tag @ concat (map renderAttr attrs) @ ''/'')"
    using assms renderAttrs_no_gt by auto
  then have "stripFrom True ((tag @ concat (map renderAttr attrs) @ ''/'') @ ''>'' @ r) = stripFrom True (''>'' @ r)"
    by (rule stripFrom_inside)
  then show ?thesis by simp
qed

lemma strip_close_tag:
  assumes "CHR ''>'' \<notin> set tag"
  shows "stripFrom False (''</'' @ tag @ ''>'' @ r) = stripFrom False r"
proof -
  have "CHR ''>'' \<notin> set (''/'' @ tag)" using assms by simp
  then have "stripFrom True ((''/'' @ tag) @ ''>'' @ r) = stripFrom True (''>'' @ r)"
    by (rule stripFrom_inside)
  then show ?thesis by simp
qed

lemma strip_children:
  assumes "\<And>c r. c \<in> set cs \<Longrightarrow> stripFrom False (renderToStaticMarkup c @ r) = textOf c @ stripFrom False r"
  shows "stripFrom False (concat (map renderToStaticMarkup cs) @ r) = concat (map textOf cs) @ stripFrom False r"
  using assms by (induction cs) simp_all

lemma strip_node:
  "wellFormed n \<Longrightarrow> stripFrom False (renderToStaticMarkup n @ r) = textOf n @ stripFrom False r"
proof (induction n arbitrary: r)
  case (Txt s)
  then show ?case by (simp add: stripFrom_plain escapeText_no_angle)
next
  case (El tag attrs children)
  have t: "CHR ''>'' \<notin> set tag" and a: "list_all (\<lambda>a. CHR ''>'' \<notin> set (fst a)) attrs"
    and w: "list_all wellFormed children"
    using El.prems by simp_all
  show ?case
  proof (cases "tag \<in> set voidElements")
    case True
    then show ?thesis using strip_void_tag [OF t a, of r] by simp
  next
    case False
    have ch: "stripFrom False (concat (map renderToStaticMarkup children) @ r') =
              concat (map textOf children) @ stripFrom False r'" for r'
      using El.IH w by (intro strip_children) (auto simp: list_all_iff)
    have "stripFrom False (renderToStaticMarkup (El tag attrs children) @ r) =
          stripFrom False (''<'' @ tag @ concat (map renderAttr attrs) @ ''>'' @
            (concat (map renderToStaticMarkup children) @ (''</'' @ tag @ ''>'' @ r)))"
      using False by simp
    also have "\<dots> = stripFrom False (concat (map renderToStaticMarkup children) @ (''</'' @ tag @ ''>'' @ r))"
      by (rule strip_open_tag [OF t a])
    also have "\<dots> = concat (map textOf children) @ stripFrom False (''</'' @ tag @ ''>'' @ r)"
      by (rule ch)
    also have "\<dots> = concat (map textOf children) @ stripFrom False r"
      using strip_close_tag [OF t, of r] by simp
    finally show ?thesis using False by simp
  qed
qed

lemma stripHtml_layout:
  "list_all wellFormed ch \<Longrightarrow>
   stripHtml (wrapWithLayout pv ch) = textOf (EmailLayout pv ch)"
proof -
  assume w: "list_all wellFormed ch"
  have wl: "wellFormed (EmailLayout pv ch)"
    using w by (simp add: EmailLayout_def css_def)
  have "stripFrom False (''<!DOCTYPE html>'' @ x) = stripFrom False x" for x
    by simp
  then have "stripHtml (wrapWithLayout pv ch) = stripFrom False (renderToStaticMarkup (EmailLayout pv ch) @ [])"
    by (simp add: stripHtml_def wrapWithLayout_def DOCTYPE_def)
  also have "\<dots> = textOf (EmailLayout pv ch) @ stripFrom False []"
    using wl by (rule strip_node)
  finally show ?thesis by simp
qed

subsection \<open>The fallback path\<close>

lemma sublist_concat_member: "c \<in> set cs \<Longrightarrow> sublist (f c) (concat (map f cs))"
proof -
  assume "c \<in> set cs"
  then obtain as bs where "cs = as @ c # bs" by (auto dest: split_list)
  then have "concat (map f cs) = concat (map f as) @ f c @ concat (map f bs)" by simp
  then show ?thesis by (metis sublist_appendI)
qed

lemma sublist_in_context: "sublist xs ys \<Longrightarrow> sublist xs (a @ ys @ b)"
  by (metis sublist_appendI sublist_order.order_trans)

lemma hasText_markup: "hasText t n \<Longrightarrow> sublist (escapeText t) (renderToStaticMarkup n)"
proof (induction n)
  case (Txt s)
  then show ?case by simp
next
  case (El tag attrs children)
  then obtain c where c: "c \<in> set children" "hasText t c" and nv: "tag \<notin> set voidElements"
    by (auto simp: list_ex_iff)
  have "sublist (escapeText t) (renderToStaticMarkup c)"
    using El.IH c by simp
  moreover have "sublist (renderToStaticMarkup c) (concat (map renderToStaticMarkup children))"
    using c(1) by (rule sublist_concat_member)
  ultimately have "sublist (escapeText t) (concat (map renderToStaticMarkup children))"
    by (rule sublist_order.order_trans)
  then have "sublist (escapeText t)
      ((''<'' @ tag @ concat (map renderAttr attrs) @ ''>'') @ concat (map renderToStaticMarkup children)
        @ (''</'' @ tag @ ''>''))"
    by (rule sublist_in_context)
  then show ?case using nv by simp
qed

lemma hasText_textOf: "hasText t n \<Longrightarrow> sublist (escapeText t) (textOf n)"
proof (induction n)
  case (Txt s)
  then show ?case by simp
next
  case (El tag attrs children)
  then obtain c where c: "c \<in> set children" "hasText t c" and nv: "tag \<notin> set voidElements"
    by (auto simp: list_ex_iff)
  have "sublist (escapeText t) (textOf c)"
    using El.IH c by simp
  moreover have "sublist (textOf c) (concat (map textOf children))"
    using c(1) by (rule sublist_concat_member)
  ultimately show ?case
    using nv by (simp add: sublist_order.order_trans)
qed

lemma sentence_escaped: "escapeText noMatchesSentence = noMatchesSentence"
  by (simp add: noMatchesSentence_def escapeText_def escapeChar_def)

lemma empty_sections:
  "summaries p = [] \<Longrightarrow>
   renderFallbackSections fm p = [EmailSection None None [TextBlock None noMatchesSentence]]"
  by (simp add: renderFallbackSections_def noMatchesSentence_def)

lemma empty_layout_hasText:
  "hasText noMatchesSentence
     (EmailLayout pv [s1, EmailSection None None [TextBlock None noMatchesSentence]])"
  by (simp add: EmailLayout_def EmailSection_def TextBlock_def truthy_str_def voidElements_def)

lemma empty_layout_wellFormed:
  "list_all wellFormed
     [EmailSection (Some t) None [TextBlock None b], EmailSection None None [TextBlock None c]]"
  by (simp add: EmailSection_def TextBlock_def truthy_str_def css_def)

lemma daily_fallback_nonempty:
  "subject (renderDailyFallbackEmail fm p (dailySubject fm p) pv) \<noteq> []"
  "html (renderDailyFallbackEmail fm p (dailySubject fm p) pv) \<noteq> []"
  "plainText (renderDailyFallbackEmail fm p (dailySubject fm p) pv) \<noteq> []"
  by (simp_all add: renderDailyFallbackEmail_def renderEmail_def dailySubject_def
      layout_html_nonempty layout_text_nonempty)

lemma price_drop_fallback_nonempty:
  "subject (renderPriceDropFallbackEmail fm p (priceDropSubject p) pv) \<noteq> []"
  "html (renderPriceDropFallbackEmail fm p (priceDropSubject p) pv) \<noteq> []"
  "plainText (renderPriceDropFallbackEmail fm p (priceDropSubject p) pv) \<noteq> []"
  by (simp_all add: renderPriceDropFallbackEmail_def renderEmail_def priceDropSubject_def
      layout_html_nonempty layout_text_nonempty)

lemma daily_empty_indicates_no_matches:
  assumes "summaries p = []"
  shows "sublist noMatchesSentence (html (renderDailyFallbackEmail fm p subj pv))"
    and "sublist noMatchesSentence (plainText (renderDailyFallbackEmail fm p subj pv))"
proof -
  let ?s1 = "EmailSection (Some ''Daily flight price update'') None
      [TextBlock None (''Summary for '' @ escapeHtml fm (formatDate fm (summaryDate p)))]"
  let ?ch = "[?s1, EmailSection None None [TextBlock None noMatchesSentence]]"
  have h: "html (renderDailyFallbackEmail fm p subj pv) = wrapWithLayout pv ?ch"
    using assms by (simp add: renderDailyFallbackEmail_def renderEmail_def empty_sections)
  have t: "plainText (renderDailyFallbackEmail fm p subj pv) = stripHtml (wrapWithLayout pv ?ch)"
    using assms by (simp add: renderDailyFallbackEmail_def renderEmail_def empty_sections)
  have ht: "hasText noMatchesSentence (EmailLayout pv ?ch)"
    by (rule empty_layout_hasText)
  have "sublist noMatchesSentence (renderToStaticMarkup (EmailLayout pv ?ch))"
    using hasText_markup [OF ht] by (simp add: sentence_escaped)
  then have "sublist noMatchesSentence (DOCTYPE @ renderToStaticMarkup (EmailLayout pv ?ch) @ [])"
    by (rule sublist_in_context)
  then show "sublist noMatchesSentence (html (renderDailyFallbackEmail fm p subj pv))"
    by (simp add: h wrapWithLayout_def)
  have "stripHtml (wrapWithLayout pv ?ch) = textOf (EmailLayout pv ?ch)"
    by (rule stripHtml_layout) (rule empty_layout_wellFormed)
  moreover have "sublist noMatchesSentence (textOf (EmailLayout pv ?ch))"
    using hasText_textOf [OF ht] by (simp add: sentence_escaped)
  ultimately show "sublist noMatchesSentence (plainText (renderDailyFallbackEmail fm p subj pv))"
    by (simp add: t)
qed

text \<open>
  C6. Rendering a payload of either kind with no blueprint returns an email, never an
  exception, and its subject, its html and its text are not empty. For a daily payload
  with no alerts the subject is built from the formatted summary date, and the html and
  the text both hold the sentence that no new flight matches were found.
\<close>

theorem fallback_always_renders:
  "\<exists>email. render fm br payload None = Inr email
     \<and> subject email \<noteq> [] \<and> html email \<noteq> [] \<and> plainText email \<noteq> []
     \<and> (\<forall>p. payload = DailyPriceUpdate p \<and> summaries p = [] \<longrightarrow>
           subject email = ''Daily update: '' @ formatDate fm (summaryDate p) @ '' alerts''
           \<and> sublist noMatchesSentence (html email)
           \<and> sublist noMatchesSentence (plainText email))"
proof (cases payload)
  case (DailyPriceUpdate p)
  let ?e = "renderDailyFallbackEmail fm p (dailySubject fm p) (dailyPreviewText p)"
  have r: "render fm br payload None = Inr ?e"
    using DailyPriceUpdate by (simp add: render_def renderDailyPriceUpdateEmail_def)
  have s: "subject ?e = ''Daily update: '' @ formatDate fm (summaryDate p) @ '' alerts''"
    by (simp add: renderDailyFallbackEmail_def renderEmail_def dailySubject_def)
  show ?thesis
    using r s daily_fallback_nonempty [of fm p "dailyPreviewText p"]
      daily_empty_indicates_no_matches [of p fm "dailySubject fm p" "dailyPreviewText p"]
      DailyPriceUpdate
    by auto
next
  case (PriceDropAlert p)
  let ?e = "renderPriceDropFallbackEmail fm p (priceDropSubject p) (priceDropPreview fm p)"
  have r: "render fm br payload None = Inr ?e"
    using PriceDropAlert by (simp add: render_def renderPriceDropAlertEmail_def)
  show ?thesis
    using r price_drop_fallback_nonempty [of fm p "priceDropPreview fm p"] PriceDropAlert
    by auto
qed

theorem fallback_always_renders_witness:
  "(case render exFormatters exRenderer (DailyPriceUpdate exDaily) None of
      Inl e \<Rightarrow> False
    | Inr email \<Rightarrow>
        subject email = ''Daily update: 2025-01-01 alerts''
        \<and> sublist noMatchesSentence (html email)
        \<and> sublist noMatchesSentence (plainText email)
        \<and> take 28 (plainText email) = ''Flight AlertsNo new matches '')"
proof -
  obtain email where r: "render exFormatters exRenderer (DailyPriceUpdate exDaily) None = Inr email"
    and s: "subject email = ''Daily update: '' @ formatDate exFormatters (summaryDate exDaily) @ '' alerts''"
    and h: "sublist noMatchesSentence (html email)"
    and t: "sublist noMatchesSentence (plainText email)"
    using fallback_always_renders [of exFormatters exRenderer "DailyPriceUpdate exDaily"]
    by (auto simp: exDaily_def)
  have e: "email = renderDailyFallbackEmail exFormatters exDaily (dailySubject exFormatters exDaily)
      (dailyPreviewText exDaily)"
    using r by (simp add: render_def renderDailyPriceUpdateEmail_def)
  have p: "take 28 (plainText email) = ''Flight AlertsNo new matches ''"
    unfolding e
    by (simp add: renderDailyFallbackEmail_def renderEmail_def dailyPreviewText_def exDaily_def
        markup_defs stripHtml_def)
  show ?thesis
    using r s h t p by (simp add: exFormatters_def exDaily_def)
qed

subsection \<open>A blueprint that fails the schema\<close>

lemmas schema_defs = EmailBlueprintSchema_safeParse_def EmailBlueprintMetadataSchema_def
  EmailSectionSchema_def EmailComponentSchema_def TextBlockComponentSchema_def zObject_def
  zRequired_def zOptional_def zString_def zArray_def zTone_def parseCallToAction_def

lemma generateBlueprint_invalid:
  assumes "generateObject gw kind prompt payload = Inr candidate"
    and "EmailBlueprintSchema_safeParse (isUrl gw) candidate = None"
  shows "generateBlueprint gw kind prompt payload = None"
  using assms by (simp add: generateBlueprint_def)

text \<open>
  C7. When the generation collaborator answers the request for a payload with a value
  that \<^verbatim>\<open>EmailBlueprintSchema\<close> rejects, \<^verbatim>\<open>generateBlueprint\<close> returns null and the
  pipeline returns exactly what rendering that payload with no blueprint returns: the
  same subject, html and text.
\<close>

theorem invalid_blueprint_renders_fallback:
  assumes "generateObject gw (requestKind payload) (requestPrompt payload) payload = Inr candidate"
    and "EmailBlueprintSchema_safeParse (isUrl gw) candidate = None"
  shows "buildEmailContent fm br gw payload = render fm br payload None
         \<and> (\<forall>p. payload = DailyPriceUpdate p \<longrightarrow>
               generateDailyDigestBlueprint gw p = None
               \<and> renderDailyDigestEmailWithAI fm br gw p = renderDailyPriceUpdateEmail fm br p None)
         \<and> (\<forall>p. payload = PriceDropAlert p \<longrightarrow>
               generatePriceDropBlueprint gw p = None
               \<and> renderPriceDropEmailWithAI fm br gw p = renderPriceDropAlertEmail fm br p None)"
proof (cases payload)
  case (DailyPriceUpdate p)
  have "generateDailyDigestBlueprint gw p = None"
    unfolding generateDailyDigestBlueprint_def
    using assms DailyPriceUpdate
    by (intro generateBlueprint_invalid [where candidate = candidate])
      (simp_all add: requestKind_def requestPrompt_def)
  then show ?thesis
    using DailyPriceUpdate
    by (simp add: buildEmailContent_def render_def renderDailyDigestEmailWithAI_def)
next
  case (PriceDropAlert p)
  have "generatePriceDropBlueprint gw p = None"
    unfolding generatePriceDropBlueprint_def
    using assms PriceDropAlert
    by (intro generateBlueprint_invalid [where candidate = candidate])
      (simp_all add: requestKind_def requestPrompt_def)
  then show ?thesis
    using PriceDropAlert
    by (simp add: buildEmailContent_def render_def renderPriceDropEmailWithAI_def)
qed

lemma exCandidate_valid:
  "EmailBlueprintSchema_safeParse (\<lambda>s. True) (exCandidate ''Flight alert'') \<noteq> None"
  by (simp add: exCandidate_def schema_defs)

lemma exCandidate_invalid:
  "EmailBlueprintSchema_safeParse (\<lambda>s. True) (exCandidate (replicate 121 (CHR ''a''))) = None"
  by (simp add: exCandidate_def schema_defs)

theorem invalid_blueprint_renders_fallback_witness:
  "generateObject (exGateway (exCandidate (replicate 121 (CHR ''a''))))
       (requestKind (DailyPriceUpdate exDaily)) (requestPrompt (DailyPriceUpdate exDaily))
       (DailyPriceUpdate exDaily)
     = Inr (exCandidate (replicate 121 (CHR ''a'')))
   \<and> EmailBlueprintSchema_safeParse (isUrl (exGateway (exCandidate (replicate 121 (CHR ''a'')))))
        (exCandidate (replicate 121 (CHR ''a''))) = None
   \<and> EmailBlueprintSchema_safeParse (\<lambda>s. True) (exCandidate ''Flight alert'') \<noteq> None
   \<and> buildEmailContent exFormatters exRenderer (exGateway (exCandidate (replicate 121 (CHR ''a''))))
        (DailyPriceUpdate exDaily)
      = render exFormatters exRenderer (DailyPriceUpdate exDaily) None"
proof -
  let ?gw = "exGateway (exCandidate (replicate 121 (CHR ''a'')))"
  have h1: "generateObject ?gw (requestKind (DailyPriceUpdate exDaily))
      (requestPrompt (DailyPriceUpdate exDaily)) (DailyPriceUpdate exDaily)
     = Inr (exCandidate (replicate 121 (CHR ''a'')))"
    by (simp add: exGateway_def)
  have h2: "EmailBlueprintSchema_safeParse (isUrl ?gw) (exCandidate (replicate 121 (CHR ''a''))) = None"
    using exCandidate_invalid by (simp add: exGateway_def)
  note t = invalid_blueprint_renders_fallback [OF h1 h2, of exFormatters exRenderer]
  from h1 h2 t exCandidate_valid show ?thesis by blast
qed


end
